theory Spec2Isabelle
  imports Complex_Main "HOL-Library.AList"
begin

section \<open>Python values and exceptions\<close>

text \<open>
  The values that travel between \<^verbatim>\<open>app.py\<close> and the database driver: query parameters
  are Python objects, and the driver hands result columns back as Python objects
  (\<^verbatim>\<open>int\<close> for integers, \<^verbatim>\<open>Decimal\<close> for numerics, \<^verbatim>\<open>str\<close> for text, \<^verbatim>\<open>datetime\<close> for
  timestamps, \<^verbatim>\<open>None\<close> for NULL). A \<^verbatim>\<open>datetime\<close> is the number of microseconds of naive
  local time since a fixed origin, a \<^verbatim>\<open>date\<close> the number of days since that origin.
  Decimals and floats carry their exact rational value: the rounding of a float to binary64
  is not represented.
\<close>

datatype pyval =
    PyNone
  | PyInt int
  | PyFloat rat
  | PyDecimal rat
  | PyStr string
  | PyDatetime int
  | PyDate int
  | PyDict "(pyval \<times> pyval) list"

text \<open>Every exception below derives from Python's \<^verbatim>\<open>Exception\<close>; \<open>DbError\<close> stands for
  \<^verbatim>\<open>psycopg2.Error\<close> with the message the driver reports.\<close>

datatype exn =
    DbError string
  | TypeError string
  | ValueError string
  | IndexError string

fun exn_str :: "exn \<Rightarrow> string" where
  "exn_str (DbError m) = m"
| "exn_str (TypeError m) = m"
| "exn_str (ValueError m) = m"
| "exn_str (IndexError m) = m"

text \<open>Truth value of an object, and Python's \<^verbatim>\<open>a or b\<close>.\<close>

fun truthy :: "pyval \<Rightarrow> bool" where
  "truthy PyNone = False"
| "truthy (PyInt n) = (n \<noteq> 0)"
| "truthy (PyFloat r) = (r \<noteq> 0)"
| "truthy (PyDecimal r) = (r \<noteq> 0)"
| "truthy (PyStr s) = (s \<noteq> [])"
| "truthy (PyDatetime t) = True"
| "truthy (PyDate d) = True"
| "truthy (PyDict kvs) = (kvs \<noteq> [])"

definition py_or :: "pyval \<Rightarrow> pyval \<Rightarrow> pyval" where
  "py_or a b = (if truthy a then a else b)"

text \<open>A dictionary keeps its keys in insertion order; storing under a key that is already
  present replaces the value in place. \<^verbatim>\<open>dict(pairs)\<close> stores the pairs from left to right.\<close>

type_synonym ('k, 'v) dict = "('k \<times> 'v) list"

definition dict_of_pairs :: "('k \<times> 'v) list \<Rightarrow> ('k, 'v) dict" where
  "dict_of_pairs kvs = foldl (\<lambda>d (k, v). AList.update k v d) [] kvs"

section \<open>The payments table and the connection\<close>

record payment =
  payment_id :: int
  customer_name :: string
  amount :: rat
  currency :: string
  status :: string
  payment_method :: string
  created_at :: int
  updated_at :: int

text \<open>
  A connection is the program's only handle on the database. \<open>rows\<close> is the table as this
  session sees it (committed rows and the session's own uncommitted writes), \<open>committed\<close> is
  the durable table, \<open>next_id\<close> is the sequence behind the generated primary key.

  Whether a call into the driver raises is decided outside the program (network, server,
  constraints of a schema that is not part of the repository, an aborted transaction).
  \<open>faults\<close> is that decision for the calls to come, one entry per call: \<open>None\<close> lets the
  call run, \<open>Some m\<close> makes it raise \<^verbatim>\<open>psycopg2.Error(m)\<close>. An exhausted script raises nothing.

  \<open>submitted\<close> records what \<^verbatim>\<open>cursor.execute\<close> was given: the query text and the tuple of
  parameters, kept apart as the driver receives them.
\<close>

record connection =
  rows :: "payment list"
  committed :: "payment list"
  next_id :: int
  faults :: "string option list"
  submitted :: "(string \<times> pyval list) list"

text \<open>A computation against the connection either raises or returns, and leaves the
  connection in a new state either way.\<close>

type_synonym 'a db = "connection \<Rightarrow> (exn + 'a) \<times> connection"

definition returns :: "'a \<Rightarrow> 'a db" where
  "returns x c = (Inr x, c)"

definition raises :: "exn \<Rightarrow> 'a db" where
  "raises e c = (Inl e, c)"

definition db_bind :: "'a db \<Rightarrow> ('a \<Rightarrow> 'b db) \<Rightarrow> 'b db" where
  "db_bind m f c = (case m c of (Inl e, c') \<Rightarrow> (Inl e, c') | (Inr x, c') \<Rightarrow> f x c')"

definition lift :: "exn + 'a \<Rightarrow> 'a db" where
  "lift r c = (r, c)"

definition db_call :: "unit db" where
  "db_call c =
     (case faults c of
        [] \<Rightarrow> (Inr (), c)
      | None # fs \<Rightarrow> (Inr (), c\<lparr>faults := fs\<rparr>)
      | Some m # fs \<Rightarrow> (Inl (DbError m), c\<lparr>faults := fs\<rparr>))"

section \<open>The statements of app.py\<close>

text \<open>The query texts, character for character as the Python string literals spell them.\<close>

definition Q_LIST :: string where
  "Q_LIST = ''\<newline>        SELECT id, customer_name, amount, currency, status, payment_method, \<newline>               created_at, updated_at\<newline>        FROM payments \<newline>        ORDER BY created_at DESC \<newline>        LIMIT %s\<newline>        ''"

definition Q_INSERT :: string where
  "Q_INSERT = ''\<newline>        INSERT INTO payments (customer_name, amount, currency, status, payment_method, created_at, updated_at)\<newline>        VALUES (%s, %s, %s, %s, %s, %s, %s)\<newline>        ''"

definition Q_UPDATE :: string where
  "Q_UPDATE = ''\<newline>        UPDATE payments \<newline>        SET status = %s, updated_at = %s \<newline>        WHERE id = %s\<newline>        ''"

definition Q_TODAY :: string where
  "Q_TODAY = ''\<newline>            SELECT COUNT(*), COALESCE(SUM(amount), 0) \<newline>            FROM payments \<newline>            WHERE DATE(created_at) = %s\<newline>        ''"

definition Q_STATUS :: string where
  "Q_STATUS = ''\<newline>            SELECT status, COUNT(*) \<newline>            FROM payments \<newline>            GROUP BY status\<newline>        ''"

definition Q_RECENT :: string where
  "Q_RECENT = ''\<newline>            SELECT COUNT(*) \<newline>            FROM payments \<newline>            WHERE created_at >= %s\<newline>        ''"

text \<open>A cursor holds what its last statement produced: the column descriptions (absent
  for a statement that returns no rows) and the result rows.\<close>

record cursor =
  description :: "string list option"
  result_rows :: "pyval list list"

definition no_result :: cursor where
  "no_result = \<lparr>description = None, result_rows = []\<rparr>"

definition payment_columns :: "string list" where
  "payment_columns = [''id'', ''customer_name'', ''amount'', ''currency'', ''status'',
     ''payment_method'', ''created_at'', ''updated_at'']"

definition payment_tuple :: "payment \<Rightarrow> pyval list" where
  "payment_tuple p = [PyInt (payment_id p), PyStr (customer_name p), PyDecimal (amount p),
     PyStr (currency p), PyStr (status p), PyStr (payment_method p),
     PyDatetime (created_at p), PyDatetime (updated_at p)]"

text \<open>\<^verbatim>\<open>ORDER BY created_at DESC\<close>: rows with equal timestamps keep their table order (SQL
  leaves their order open; no result below depends on it). \<^verbatim>\<open>LIMIT\<close> with a negative count
  is an error of the server.\<close>

definition order_by_created_at_desc :: "payment list \<Rightarrow> payment list" where
  "order_by_created_at_desc ps = sort_key (\<lambda>p. - created_at p) ps"

definition date_of :: "int \<Rightarrow> int" where
  "date_of t = t div 86400000000"

definition count_rows :: "payment list \<Rightarrow> pyval" where
  "count_rows ps = PyInt (int (length ps))"

text \<open>\<^verbatim>\<open>SUM\<close> over no rows is NULL; \<^verbatim>\<open>COALESCE\<close> takes the first argument that is not.\<close>

definition sql_sum :: "rat list \<Rightarrow> pyval" where
  "sql_sum xs = (if xs = [] then PyNone else PyDecimal (sum_list xs))"

definition coalesce :: "pyval \<Rightarrow> pyval \<Rightarrow> pyval" where
  "coalesce a b = (if a = PyNone then b else a)"

text \<open>Reading a parameter at the type its column has.\<close>

fun as_str :: "pyval \<Rightarrow> string option" where
  "as_str (PyStr s) = Some s"
| "as_str _ = None"

fun as_float :: "pyval \<Rightarrow> rat option" where
  "as_float (PyFloat a) = Some a"
| "as_float _ = None"

fun as_datetime :: "pyval \<Rightarrow> int option" where
  "as_datetime (PyDatetime t) = Some t"
| "as_datetime _ = None"

fun sql_list :: "pyval list \<Rightarrow> cursor db" where
  "sql_list [PyInt n] c =
     (if n < 0 then (Inl (DbError ''LIMIT must not be negative''), c)
      else (Inr \<lparr>description = Some payment_columns,
                 result_rows = take (nat n) (map payment_tuple (order_by_created_at_desc (rows c)))\<rparr>, c))"
| "sql_list _ c = (Inl (DbError ''cannot adapt parameters''), c)"

text \<open>The statement names no \<^verbatim>\<open>id\<close>: the storage generates it.\<close>

definition sql_insert :: "pyval list \<Rightarrow> cursor db" where
  "sql_insert ps c =
     (case ps of
        [n, a, cu, s, pm, ca, ua] \<Rightarrow>
          (case (as_str n, as_float a, as_str cu, as_str s, as_str pm,
                 as_datetime ca, as_datetime ua) of
             (Some n', Some a', Some cu', Some s', Some pm', Some ca', Some ua') \<Rightarrow>
               (Inr no_result,
                c\<lparr>rows := rows c @ [\<lparr>payment_id = next_id c, customer_name = n', amount = a',
                      currency = cu', status = s', payment_method = pm',
                      created_at = ca', updated_at = ua'\<rparr>],
                  next_id := next_id c + 1\<rparr>)
           | _ \<Rightarrow> (Inl (DbError ''cannot adapt parameters''), c))
      | _ \<Rightarrow> (Inl (DbError ''cannot adapt parameters''), c))"

definition set_status :: "string \<Rightarrow> int \<Rightarrow> int \<Rightarrow> payment \<Rightarrow> payment" where
  "set_status s t i p = (if payment_id p = i then p\<lparr>status := s, updated_at := t\<rparr> else p)"

fun sql_update :: "pyval list \<Rightarrow> cursor db" where
  "sql_update [PyStr s, PyDatetime t, PyInt i] c =
     (Inr no_result, c\<lparr>rows := map (set_status s t i) (rows c)\<rparr>)"
| "sql_update _ c = (Inl (DbError ''cannot adapt parameters''), c)"

fun sql_today :: "pyval list \<Rightarrow> cursor db" where
  "sql_today [PyDate d] c =
     (let today = filter (\<lambda>p. date_of (created_at p) = d) (rows c)
      in (Inr \<lparr>description = Some [''count'', ''coalesce''],
               result_rows = [[count_rows today,
                               coalesce (sql_sum (map amount today)) (PyDecimal 0)]]\<rparr>, c))"
| "sql_today _ c = (Inl (DbError ''cannot adapt parameters''), c)"

fun sql_status :: "pyval list \<Rightarrow> cursor db" where
  "sql_status [] c =
     (Inr \<lparr>description = Some [''status'', ''count''],
           result_rows = map (\<lambda>s. [PyStr s, count_rows (filter (\<lambda>p. status p = s) (rows c))])
                             (remdups (map status (rows c)))\<rparr>, c)"
| "sql_status _ c = (Inl (DbError ''cannot adapt parameters''), c)"

fun sql_recent :: "pyval list \<Rightarrow> cursor db" where
  "sql_recent [PyDatetime t] c =
     (Inr \<lparr>description = Some [''count''],
           result_rows = [[count_rows (filter (\<lambda>p. t \<le> created_at p) (rows c))]]\<rparr>, c)"
| "sql_recent _ c = (Inl (DbError ''cannot adapt parameters''), c)"

text \<open>The server runs the statement whose text it is given.\<close>

definition run_sql :: "string \<Rightarrow> pyval list \<Rightarrow> cursor db" where
  "run_sql q ps =
     (if q = Q_LIST then sql_list ps
      else if q = Q_INSERT then sql_insert ps
      else if q = Q_UPDATE then sql_update ps
      else if q = Q_TODAY then sql_today ps
      else if q = Q_STATUS then sql_status ps
      else if q = Q_RECENT then sql_recent ps
      else raises (DbError ''syntax error''))"

section \<open>The driver calls\<close>

text \<open>
  Every method call on the connection or on a cursor is one driver call: it consumes one entry
  of the fault script and raises if the entry says so. \<^verbatim>\<open>cursor.execute\<close> first hands the
  statement over (the log records it), then the server runs it or raises; a statement that
  raises changes nothing. Executing on a cursor replaces what the cursor held, so the model
  returns the cursor as it is after the statement. A result is fetched once after each
  statement in this program, so fetching does not need to remove rows from the cursor.
  The attribute \<^verbatim>\<open>cursor.description\<close> is read without a driver call.
\<close>

definition conn_cursor :: "cursor db" where
  "conn_cursor = db_bind db_call (\<lambda>_. returns no_result)"

definition submit :: "string \<Rightarrow> pyval list \<Rightarrow> unit db" where
  "submit q ps c = (Inr (), c\<lparr>submitted := submitted c @ [(q, ps)]\<rparr>)"

definition cursor_execute :: "cursor \<Rightarrow> string \<Rightarrow> pyval list \<Rightarrow> cursor db" where
  "cursor_execute cur q ps =
     db_bind (submit q ps) (\<lambda>_.
     db_bind db_call (\<lambda>_. run_sql q ps))"

definition cursor_fetchall :: "cursor \<Rightarrow> pyval list list db" where
  "cursor_fetchall cur = db_bind db_call (\<lambda>_. returns (result_rows cur))"

definition cursor_fetchone :: "cursor \<Rightarrow> pyval list option db" where
  "cursor_fetchone cur =
     db_bind db_call (\<lambda>_. returns (case result_rows cur of [] \<Rightarrow> None | r # _ \<Rightarrow> Some r))"

definition cursor_close :: "cursor \<Rightarrow> unit db" where
  "cursor_close cur = db_call"

text \<open>\<^verbatim>\<open>conn.commit()\<close> makes the session's writes durable; when it raises, the transaction
  is rolled back.\<close>

definition conn_commit :: "unit db" where
  "conn_commit c =
     (case db_call c of
        (Inr u, c') \<Rightarrow> (Inr u, c'\<lparr>committed := rows c'\<rparr>)
      | (Inl e, c') \<Rightarrow> (Inl e, c'\<lparr>rows := committed c'\<rparr>))"

section \<open>The four operations\<close>

text \<open>What an operation leaves behind: the value it returns, the messages it shows with
  \<^verbatim>\<open>st.error\<close>, and the connection.\<close>

record 'a outcome =
  returned :: 'a
  st_errors :: "string list"
  conn_after :: "connection option"

text \<open>\<^verbatim>\<open>[desc[0] for desc in cursor.description]\<close>\<close>

definition column_names :: "cursor \<Rightarrow> string list db" where
  "column_names cur =
     (case description cur of
        None \<Rightarrow> raises (TypeError ''NoneType object is not iterable'')
      | Some cols \<Rightarrow> returns cols)"

definition get_payments_try :: "int \<Rightarrow> (string, pyval) dict list db" where
  "get_payments_try limit =
     db_bind conn_cursor (\<lambda>cursor.
     db_bind (cursor_execute cursor Q_LIST [PyInt limit]) (\<lambda>cursor.
     db_bind (column_names cursor) (\<lambda>columns.
     db_bind (cursor_fetchall cursor) (\<lambda>fetched.
     db_bind (cursor_close cursor) (\<lambda>_.
     returns (map (\<lambda>row. dict_of_pairs (zip columns row)) fetched))))))"

definition get_payments :: "connection option \<Rightarrow> int \<Rightarrow> (string, pyval) dict list outcome" where
  "get_payments conn limit =
     (case conn of
        None \<Rightarrow> \<lparr>returned = [], st_errors = [], conn_after = None\<rparr>
      | Some c \<Rightarrow>
          (case get_payments_try limit c of
             (Inr payments, c') \<Rightarrow>
               \<lparr>returned = payments, st_errors = [], conn_after = Some c'\<rparr>
           | (Inl e, c') \<Rightarrow>
               \<lparr>returned = [], st_errors = [''Error fetching payments: '' @ exn_str e],
                conn_after = Some c'\<rparr>))"

definition add_payment_try :: "string \<Rightarrow> rat \<Rightarrow> string \<Rightarrow> string \<Rightarrow> int \<Rightarrow> bool db" where
  "add_payment_try name amt cur meth now =
     db_bind conn_cursor (\<lambda>cursor.
     db_bind (cursor_execute cursor Q_INSERT
                [PyStr name, PyFloat amt, PyStr cur, PyStr ''pending'',
                 PyStr meth, PyDatetime now, PyDatetime now]) (\<lambda>cursor.
     db_bind conn_commit (\<lambda>_.
     db_bind (cursor_close cursor) (\<lambda>_.
     returns True))))"

text \<open>\<open>now\<close> is what \<^verbatim>\<open>datetime.now()\<close> reads during the call.\<close>

definition add_payment ::
  "connection option \<Rightarrow> string \<Rightarrow> rat \<Rightarrow> string \<Rightarrow> string \<Rightarrow> int \<Rightarrow> bool outcome" where
  "add_payment conn name amt cur meth now =
     (case conn of
        None \<Rightarrow> \<lparr>returned = False, st_errors = [], conn_after = None\<rparr>
      | Some c \<Rightarrow>
          (case add_payment_try name amt cur meth now c of
             (Inr ok, c') \<Rightarrow> \<lparr>returned = ok, st_errors = [], conn_after = Some c'\<rparr>
           | (Inl e, c') \<Rightarrow>
               \<lparr>returned = False, st_errors = [''Error adding payment: '' @ exn_str e],
                conn_after = Some c'\<rparr>))"

definition update_payment_status_try :: "int \<Rightarrow> string \<Rightarrow> int \<Rightarrow> bool db" where
  "update_payment_status_try pid new_status now =
     db_bind conn_cursor (\<lambda>cursor.
     db_bind (cursor_execute cursor Q_UPDATE
                [PyStr new_status, PyDatetime now, PyInt pid]) (\<lambda>cursor.
     db_bind conn_commit (\<lambda>_.
     db_bind (cursor_close cursor) (\<lambda>_.
     returns True))))"

definition update_payment_status ::
  "connection option \<Rightarrow> int \<Rightarrow> string \<Rightarrow> int \<Rightarrow> bool outcome" where
  "update_payment_status conn pid new_status now =
     (case conn of
        None \<Rightarrow> \<lparr>returned = False, st_errors = [], conn_after = None\<rparr>
      | Some c \<Rightarrow>
          (case update_payment_status_try pid new_status now c of
             (Inr ok, c') \<Rightarrow> \<lparr>returned = ok, st_errors = [], conn_after = Some c'\<rparr>
           | (Inl e, c') \<Rightarrow>
               \<lparr>returned = False, st_errors = [''Error updating payment: '' @ exn_str e],
                conn_after = Some c'\<rparr>))"

text \<open>\<^verbatim>\<open>a, b = row\<close>, \<^verbatim>\<open>row[0]\<close>, \<^verbatim>\<open>dict(rows)\<close> and \<^verbatim>\<open>float(x)\<close>, each with the exception
  Python raises when the object has the wrong shape. No string reaches \<^verbatim>\<open>float\<close> in this
  program; the model does not parse one.\<close>

definition unpack2 :: "pyval list option \<Rightarrow> exn + (pyval \<times> pyval)" where
  "unpack2 row =
     (case row of
        None \<Rightarrow> Inl (TypeError ''cannot unpack non-iterable NoneType object'')
      | Some [a, b] \<Rightarrow> Inr (a, b)
      | Some _ \<Rightarrow> Inl (ValueError ''wrong number of values to unpack''))"

definition subscript0 :: "pyval list option \<Rightarrow> exn + pyval" where
  "subscript0 row =
     (case row of
        None \<Rightarrow> Inl (TypeError ''NoneType object is not subscriptable'')
      | Some [] \<Rightarrow> Inl (IndexError ''tuple index out of range'')
      | Some (a # _) \<Rightarrow> Inr a)"

fun hashable :: "pyval \<Rightarrow> bool" where
  "hashable (PyDict kvs) = False"
| "hashable _ = True"

fun pairs_of :: "pyval list list \<Rightarrow> exn + (pyval \<times> pyval) list" where
  "pairs_of [] = Inr []"
| "pairs_of (r # rs) =
     (case r of
        [k, v] \<Rightarrow>
          (if hashable k
           then (case pairs_of rs of Inl e \<Rightarrow> Inl e | Inr kvs \<Rightarrow> Inr ((k, v) # kvs))
           else Inl (TypeError ''unhashable type''))
      | _ \<Rightarrow> Inl (ValueError ''dictionary update sequence element has the wrong length''))"

definition py_dict :: "pyval list list \<Rightarrow> exn + pyval" where
  "py_dict rs = (case pairs_of rs of Inl e \<Rightarrow> Inl e | Inr kvs \<Rightarrow> Inr (PyDict (dict_of_pairs kvs)))"

fun py_float :: "pyval \<Rightarrow> exn + pyval" where
  "py_float (PyInt n) = Inr (PyFloat (of_int n))"
| "py_float (PyFloat r) = Inr (PyFloat r)"
| "py_float (PyDecimal r) = Inr (PyFloat r)"
| "py_float (PyStr s) = Inl (ValueError ''could not convert string to float'')"
| "py_float _ = Inl (TypeError ''float() argument must be a string or a real number'')"

text \<open>\<open>now_today\<close> and \<open>now_recent\<close> are the two readings of \<^verbatim>\<open>datetime.now()\<close>, in the
  order the function takes them; \<^verbatim>\<open>timedelta(hours=1)\<close> is 3600000000 microseconds.\<close>

definition get_payment_stats_try :: "int \<Rightarrow> int \<Rightarrow> (string, pyval) dict db" where
  "get_payment_stats_try now_today now_recent =
     db_bind conn_cursor (\<lambda>cursor.
     db_bind (cursor_execute cursor Q_TODAY [PyDate (date_of now_today)]) (\<lambda>cursor.
     db_bind (cursor_fetchone cursor) (\<lambda>row.
     db_bind (lift (unpack2 row)) (\<lambda>(today_count, today_total).
     db_bind (cursor_execute cursor Q_STATUS []) (\<lambda>cursor.
     db_bind (cursor_fetchall cursor) (\<lambda>fetched.
     db_bind (lift (py_dict fetched)) (\<lambda>status_dist.
     db_bind (cursor_execute cursor Q_RECENT [PyDatetime (now_recent - 3600000000)]) (\<lambda>cursor.
     db_bind (cursor_fetchone cursor) (\<lambda>row.
     db_bind (lift (subscript0 row)) (\<lambda>recent_count.
     db_bind (cursor_close cursor) (\<lambda>_.
     db_bind (lift (py_float (py_or today_total (PyInt 0)))) (\<lambda>total.
     returns [(''today_count'', py_or today_count (PyInt 0)),
              (''today_total'', total),
              (''status_distribution'', status_dist),
              (''recent_activity'', py_or recent_count (PyInt 0))]))))))))))))"

definition get_payment_stats ::
  "connection option \<Rightarrow> int \<Rightarrow> int \<Rightarrow> (string, pyval) dict outcome" where
  "get_payment_stats conn now_today now_recent =
     (case conn of
        None \<Rightarrow> \<lparr>returned = [], st_errors = [], conn_after = None\<rparr>
      | Some c \<Rightarrow>
          (case get_payment_stats_try now_today now_recent c of
             (Inr stats, c') \<Rightarrow> \<lparr>returned = stats, st_errors = [], conn_after = Some c'\<rparr>
           | (Inl e, c') \<Rightarrow>
               \<lparr>returned = [], st_errors = [''Error fetching stats: '' @ exn_str e],
                conn_after = Some c'\<rparr>))"

section \<open>Vocabulary of the properties\<close>

text \<open>The dictionary that \<^verbatim>\<open>dict(zip(columns, row))\<close> builds for a table row.\<close>

definition payment_dict :: "payment \<Rightarrow> (string, pyval) dict" where
  "payment_dict p = dict_of_pairs (zip payment_columns (payment_tuple p))"

text \<open>\<^verbatim>\<open>a['created_at'] >= b['created_at']\<close> for two returned dictionaries.\<close>

definition created_at_of :: "(string, pyval) dict \<Rightarrow> int option" where
  "created_at_of d = (case map_of d ''created_at'' of Some (PyDatetime t) \<Rightarrow> Some t | _ \<Rightarrow> None)"

definition not_older :: "(string, pyval) dict \<Rightarrow> (string, pyval) dict \<Rightarrow> bool" where
  "not_older a b =
     (case (created_at_of a, created_at_of b) of (Some s, Some t) \<Rightarrow> t \<le> s | _ \<Rightarrow> False)"

text \<open>None of the next \<open>n\<close> driver calls raises.\<close>

definition quiet :: "nat \<Rightarrow> connection \<Rightarrow> bool" where
  "quiet n c = list_all (\<lambda>f. f = None) (take n (faults c))"

definition head_ok :: "string option list \<Rightarrow> bool" where
  "head_ok fs = (case fs of [] \<Rightarrow> True | f # _ \<Rightarrow> f = None)"

text \<open>The session has no uncommitted write: every operation starts and ends in this state.\<close>

definition in_sync :: "connection \<Rightarrow> bool" where
  "in_sync c = (committed c = rows c)"

text \<open>The query texts an operation handed to \<^verbatim>\<open>cursor.execute\<close>, given the connection it
  started from.\<close>

definition texts_sent :: "connection \<Rightarrow> 'a outcome \<Rightarrow> string list" where
  "texts_sent c out =
     (case conn_after out of
        None \<Rightarrow> []
      | Some c' \<Rightarrow> map fst (drop (length (submitted c)) (submitted c')))"

definition params_sent :: "connection \<Rightarrow> 'a outcome \<Rightarrow> pyval list list" where
  "params_sent c out =
     (case conn_after out of
        None \<Rightarrow> []
      | Some c' \<Rightarrow> map snd (drop (length (submitted c)) (submitted c')))"

text \<open>What \<^verbatim>\<open>UPDATE\<close> may do to a row: nothing at all unless its id is the one given, and
  nothing but \<open>status\<close> and \<open>updated_at\<close> otherwise.\<close>

definition only_status_changed :: "int \<Rightarrow> payment \<Rightarrow> payment \<Rightarrow> bool" where
  "only_status_changed pid p p' =
     (payment_id p' = payment_id p \<and> customer_name p' = customer_name p \<and> amount p' = amount p
      \<and> currency p' = currency p \<and> payment_method p' = payment_method p
      \<and> created_at p' = created_at p
      \<and> (payment_id p \<noteq> pid \<longrightarrow> p' = p))"

text \<open>Sequences of operations, with the clock readings each one takes.\<close>

datatype operation =
    GetPayments int
  | AddPayment string rat string string int
  | UpdatePaymentStatus int string int
  | GetPaymentStats int int

fun perform :: "connection option \<Rightarrow> operation \<Rightarrow> connection option" where
  "perform conn (GetPayments limit) = conn_after (get_payments conn limit)"
| "perform conn (AddPayment name amt cur meth now) =
     conn_after (add_payment conn name amt cur meth now)"
| "perform conn (UpdatePaymentStatus pid new_status now) =
     conn_after (update_payment_status conn pid new_status now)"
| "perform conn (GetPaymentStats now_today now_recent) =
     conn_after (get_payment_stats conn now_today now_recent)"

definition run :: "connection option \<Rightarrow> operation list \<Rightarrow> connection option" where
  "run conn ops = foldl perform conn ops"

fun readings :: "operation \<Rightarrow> int list" where
  "readings (GetPayments limit) = []"
| "readings (AddPayment name amt cur meth now) = [now]"
| "readings (UpdatePaymentStatus pid new_status now) = [now]"
| "readings (GetPaymentStats now_today now_recent) = [now_today, now_recent]"

definition clock_readings :: "operation list \<Rightarrow> int list" where
  "clock_readings ops = concat (map readings ops)"

definition timestamps_ordered :: "payment list \<Rightarrow> bool" where
  "timestamps_ordered ps = list_all (\<lambda>p. created_at p \<le> updated_at p) ps"

definition created_by :: "int \<Rightarrow> payment list \<Rightarrow> bool" where
  "created_by t ps = list_all (\<lambda>p. created_at p \<le> t) ps"

text \<open>Two ways of summarising a computation, used in the proofs: a computation that returns
  has made exactly \<open>n\<close> driver calls, none of which raised; and a computation keeps a
  property of the connection, however it ends.\<close>

definition calls :: "nat \<Rightarrow> 'a db \<Rightarrow> bool" where
  "calls n m = (\<forall>c x c'. m c = (Inr x, c') \<longrightarrow> quiet n c \<and> faults c' = drop n (faults c))"

definition preserves :: "(connection \<Rightarrow> bool) \<Rightarrow> 'a db \<Rightarrow> bool" where
  "preserves I m = (\<forall>c r c'. I c \<longrightarrow> m c = (r, c') \<longrightarrow> I c')"

text \<open>A property of the table alone: of what the session sees and of what is durable.\<close>

definition on_table :: "(payment list \<Rightarrow> payment list \<Rightarrow> bool) \<Rightarrow> connection \<Rightarrow> bool" where
  "on_table P c = P (rows c) (committed c)"

text \<open>The row that \<^verbatim>\<open>INSERT\<close> writes when the sequence stands at \<open>i\<close>.\<close>

definition new_payment :: "int \<Rightarrow> string \<Rightarrow> rat \<Rightarrow> string \<Rightarrow> string \<Rightarrow> int \<Rightarrow> payment" where
  "new_payment i name amt cur meth now =
     \<lparr>payment_id = i, customer_name = name, amount = amt, currency = cur, status = ''pending'',
      payment_method = meth, created_at = now, updated_at = now\<rparr>"

text \<open>What \<^verbatim>\<open>GROUP BY status\<close> yields for the table, as the dictionary built from it, and
  the keys of the dictionary \<open>get_payment_stats\<close> builds.\<close>

definition status_counts :: "payment list \<Rightarrow> (pyval \<times> pyval) list" where
  "status_counts ps =
     map (\<lambda>s. (PyStr s, count_rows (filter (\<lambda>p. status p = s) ps))) (remdups (map status ps))"

definition stats_keys :: "string list" where
  "stats_keys = [''today_count'', ''today_total'', ''status_distribution'', ''recent_activity'']"

text \<open>Both views of the table have ordered timestamps, and no row was created after \<open>t\<close>.\<close>

definition stamped :: "int \<Rightarrow> payment list \<Rightarrow> payment list \<Rightarrow> bool" where
  "stamped t r k =
     (timestamps_ordered r \<and> timestamps_ordered k \<and> created_by t r \<and> created_by t k)"

section \<open>Example connections\<close>

text \<open>An empty table; a table of two payments, the second one updated after its creation;
  a connection whose second driver call raises; and a sequence of operations under a clock
  that moves forward.\<close>

definition empty_table :: connection where
  "empty_table = \<lparr>rows = [], committed = [], next_id = 1, faults = [], submitted = []\<rparr>"

definition alice :: payment where
  "alice = \<lparr>payment_id = 1, customer_name = ''Alice'', amount = 4999 / 100, currency = ''USD'',
     status = ''pending'', payment_method = ''credit_card'', created_at = 1000, updated_at = 1000\<rparr>"

definition bob :: payment where
  "bob = \<lparr>payment_id = 2, customer_name = ''Bob'', amount = 20, currency = ''EUR'',
     status = ''completed'', payment_method = ''paypal'', created_at = 2000, updated_at = 2500\<rparr>"

definition two_rows :: connection where
  "two_rows = \<lparr>rows = [alice, bob], committed = [alice, bob], next_id = 3, faults = [],
     submitted = []\<rparr>"

definition lost_conn :: connection where
  "lost_conn = \<lparr>rows = [], committed = [], next_id = 1,
     faults = [None, Some ''server closed the connection unexpectedly''], submitted = []\<rparr>"

definition busy_day :: "operation list" where
  "busy_day = [AddPayment ''Carol'' 5 ''GBP'' ''paypal'' 3000,
     UpdatePaymentStatus 1 ''completed'' 3500, GetPayments 50, GetPaymentStats 4000 4000,
     UpdatePaymentStatus 3 ''failed'' 4000]"

section \<open>Basic facts about the model\<close>

lemma query_texts_distinct:
  "Q_LIST \<noteq> Q_INSERT" "Q_LIST \<noteq> Q_UPDATE" "Q_LIST \<noteq> Q_TODAY" "Q_LIST \<noteq> Q_STATUS" "Q_LIST \<noteq> Q_RECENT"
  "Q_INSERT \<noteq> Q_UPDATE" "Q_INSERT \<noteq> Q_TODAY" "Q_INSERT \<noteq> Q_STATUS" "Q_INSERT \<noteq> Q_RECENT"
  "Q_UPDATE \<noteq> Q_TODAY" "Q_UPDATE \<noteq> Q_STATUS" "Q_UPDATE \<noteq> Q_RECENT"
  "Q_TODAY \<noteq> Q_STATUS" "Q_TODAY \<noteq> Q_RECENT"
  "Q_STATUS \<noteq> Q_RECENT"
  by (simp_all add: Q_LIST_def Q_INSERT_def Q_UPDATE_def Q_TODAY_def Q_STATUS_def Q_RECENT_def)

lemma run_sql_simps:
  "run_sql Q_LIST ps = sql_list ps"
  "run_sql Q_INSERT ps = sql_insert ps"
  "run_sql Q_UPDATE ps = sql_update ps"
  "run_sql Q_TODAY ps = sql_today ps"
  "run_sql Q_STATUS ps = sql_status ps"
  "run_sql Q_RECENT ps = sql_recent ps"
  using query_texts_distinct by (simp_all add: run_sql_def)

lemma payment_dict_eq:
  "payment_dict p =
     [(''id'', PyInt (payment_id p)), (''customer_name'', PyStr (customer_name p)),
      (''amount'', PyDecimal (amount p)), (''currency'', PyStr (currency p)),
      (''status'', PyStr (status p)), (''payment_method'', PyStr (payment_method p)),
      (''created_at'', PyDatetime (created_at p)), (''updated_at'', PyDatetime (updated_at p))]"
  by (simp add: payment_dict_def dict_of_pairs_def payment_columns_def payment_tuple_def)

lemma created_at_of_payment_dict: "created_at_of (payment_dict p) = Some (created_at p)"
  by (simp add: payment_dict_eq created_at_of_def)

lemma not_older_payment_dict:
  "not_older (payment_dict a) (payment_dict b) = (created_at b \<le> created_at a)"
  by (simp add: not_older_def created_at_of_payment_dict)

lemma db_bind_returns [simp]: "db_bind (returns x) f = f x"
  by (rule ext) (simp add: db_bind_def returns_def)

lemma db_bind_raises [simp]: "db_bind (raises e) f = raises e"
  by (rule ext) (simp add: db_bind_def raises_def)

lemma db_bind_lift_Inr [simp]: "db_bind (lift (Inr x)) f = f x"
  by (rule ext) (simp add: db_bind_def lift_def)

lemma db_bind_lift_Inl [simp]: "db_bind (lift (Inl e)) f = raises e"
  by (rule ext) (simp add: db_bind_def lift_def raises_def)

lemma db_bind_Inr:
  "db_bind m f c = (Inr y, c') \<longleftrightarrow> (\<exists>x c1. m c = (Inr x, c1) \<and> f x c1 = (Inr y, c'))"
  by (auto simp: db_bind_def split: prod.splits sum.splits)

lemma db_bind_assoc: "db_bind (db_bind m f) g = db_bind m (\<lambda>x. db_bind (f x) g)"
  by (rule ext) (simp add: db_bind_def split: prod.splits sum.splits)

lemma quiet_0 [simp]: "quiet 0 c"
  by (simp add: quiet_def)

lemma quiet_head_ok:
  assumes "quiet n c" "k < n"
  shows "head_ok (drop k (faults c))"
proof (cases "drop k (faults c)")
  case Nil
  then show ?thesis by (simp add: head_ok_def)
next
  case (Cons f r)
  then have k: "k < length (faults c)" and f: "faults c ! k = f"
    by (auto simp: nth_via_drop intro: ccontr)
  from k assms(2) have "faults c ! k \<in> set (take n (faults c))"
    by (metis length_take min_less_iff_conj nth_mem nth_take)
  with assms(1) f have "f = None"
    by (auto simp: quiet_def list_all_iff)
  with Cons show ?thesis by (simp add: head_ok_def)
qed

lemma faults_update_same: "faults c = fs \<Longrightarrow> c\<lparr>faults := fs\<rparr> = c"
  by (cases c) simp

lemma db_call_step:
  "head_ok (faults c) \<Longrightarrow> db_bind db_call f c = f () (c\<lparr>faults := drop 1 (faults c)\<rparr>)"
  by (auto simp: head_ok_def db_bind_def db_call_def faults_update_same split: list.splits)

lemma conn_commit_step:
  "head_ok (faults c) \<Longrightarrow>
   db_bind conn_commit f c = f () (c\<lparr>faults := drop 1 (faults c), committed := rows c\<rparr>)"
  by (auto simp: head_ok_def db_bind_def conn_commit_def db_call_def faults_update_same split: list.splits)

lemma db_call_last:
  "head_ok (faults c) \<Longrightarrow> db_call c = (Inr (), c\<lparr>faults := drop 1 (faults c)\<rparr>)"
  by (auto simp: head_ok_def db_call_def faults_update_same split: list.splits)

lemma db_bind_submit:
  "db_bind (submit q ps) f c = f () (c\<lparr>submitted := submitted c @ [(q, ps)]\<rparr>)"
  by (simp add: db_bind_def submit_def)

lemma sql_insert_ok:
  "sql_insert [PyStr n, PyFloat a, PyStr cu, PyStr s, PyStr pm, PyDatetime ca, PyDatetime ua] c =
     (Inr no_result,
      c\<lparr>rows := rows c @ [\<lparr>payment_id = next_id c, customer_name = n, amount = a, currency = cu,
            status = s, payment_method = pm, created_at = ca, updated_at = ua\<rparr>],
        next_id := next_id c + 1\<rparr>)"
  by (simp add: sql_insert_def)

lemma db_bind_apply: "m c = (Inr x, c') \<Longrightarrow> db_bind m f c = f x c'"
  by (simp add: db_bind_def)

lemmas driver_defs = conn_cursor_def cursor_execute_def cursor_close_def cursor_fetchall_def
  cursor_fetchone_def column_names_def

lemmas steps = db_bind_assoc db_call_step conn_commit_step db_bind_submit run_sql_simps
  db_call_last

lemma add_payment_try_quiet:
  assumes "quiet 4 c"
  shows "add_payment_try n a cu pm now c =
     (Inr True,
      c\<lparr>rows := rows c @ [\<lparr>payment_id = next_id c, customer_name = n, amount = a, currency = cu,
            status = ''pending'', payment_method = pm, created_at = now, updated_at = now\<rparr>],
        committed := rows c @ [\<lparr>payment_id = next_id c, customer_name = n, amount = a, currency = cu,
            status = ''pending'', payment_method = pm, created_at = now, updated_at = now\<rparr>],
        next_id := next_id c + 1,
        faults := drop 4 (faults c),
        submitted := submitted c @ [(Q_INSERT, [PyStr n, PyFloat a, PyStr cu, PyStr ''pending'',
                 PyStr pm, PyDatetime now, PyDatetime now])]\<rparr>)"
proof -
  have h: "head_ok (faults c)" "head_ok (drop 1 (faults c))" "head_ok (drop 2 (faults c))"
    "head_ok (drop 3 (faults c))"
    using quiet_head_ok [OF assms, of 0] quiet_head_ok [OF assms, of 1]
      quiet_head_ok [OF assms, of 2] quiet_head_ok [OF assms, of 3] by simp_all
  show ?thesis
    using h
    by (simp add: add_payment_try_def driver_defs steps db_bind_apply [OF sql_insert_ok] returns_def
        eval_nat_numeral)
qed

subsection \<open>Counting driver calls\<close>

lemma calls_bind:
  assumes "calls a m" "\<And>x. calls b (f x)"
  shows "calls (a + b) (db_bind m f)"
  unfolding calls_def
proof (intro allI impI)
  fix c y c'
  assume "db_bind m f c = (Inr y, c')"
  then obtain x c1 where m: "m c = (Inr x, c1)" and f: "f x c1 = (Inr y, c')"
    by (auto simp: db_bind_Inr)
  from assms(1) m have a: "quiet a c" "faults c1 = drop a (faults c)"
    by (auto simp: calls_def)
  from assms(2) f have b: "quiet b c1" "faults c' = drop b (faults c1)"
    by (auto simp: calls_def)
  from a b show "quiet (a + b) c \<and> faults c' = drop (a + b) (faults c)"
    by (simp add: quiet_def take_add add.commute)
qed

lemma calls_case_prod: "(\<And>a b. calls n (g a b)) \<Longrightarrow> calls n (case_prod g p)"
  by (cases p) simp

lemma calls_returns: "calls 0 (returns x)"
  by (simp add: calls_def returns_def)

lemma calls_raises: "calls n (raises e)"
  by (simp add: calls_def raises_def)

lemma calls_lift: "calls 0 (lift r)"
  by (simp add: calls_def lift_def)

lemma calls_submit: "calls 0 (submit q ps)"
  by (simp add: calls_def submit_def)

lemma calls_db_call: "calls 1 db_call"
  by (auto simp: calls_def db_call_def quiet_def split: list.splits option.splits)

lemma calls_conn_commit: "calls 1 conn_commit"
  by (auto simp: calls_def conn_commit_def db_call_def quiet_def split: list.splits option.splits)

lemma faults_sql_list: "faults (snd (sql_list ps c)) = faults c"
  by (induction ps c rule: sql_list.induct) simp_all

lemma faults_sql_insert: "faults (snd (sql_insert ps c)) = faults c"
  by (simp add: sql_insert_def split: list.splits option.splits)

lemma faults_sql_update: "faults (snd (sql_update ps c)) = faults c"
  by (induction ps c rule: sql_update.induct) simp_all

lemma faults_sql_today: "faults (snd (sql_today ps c)) = faults c"
  by (induction ps c rule: sql_today.induct) (simp_all add: Let_def)

lemma faults_sql_status: "faults (snd (sql_status ps c)) = faults c"
  by (induction ps c rule: sql_status.induct) simp_all

lemma faults_sql_recent: "faults (snd (sql_recent ps c)) = faults c"
  by (induction ps c rule: sql_recent.induct) simp_all

lemma faults_run_sql: "faults (snd (run_sql q ps c)) = faults c"
  by (simp add: run_sql_def raises_def faults_sql_list faults_sql_insert faults_sql_update
      faults_sql_today faults_sql_status faults_sql_recent)

lemma calls_run_sql: "calls 0 (run_sql q ps)"
  unfolding calls_def
proof (intro allI impI)
  fix c x c'
  assume "run_sql q ps c = (Inr x, c')"
  then have "faults c' = faults c"
    using faults_run_sql [of q ps c] by simp
  then show "quiet 0 c \<and> faults c' = drop 0 (faults c)" by simp
qed

lemma calls_one_call: "calls 1 (db_bind db_call (\<lambda>_. returns x))"
proof -
  have "calls (1 + 0) (db_bind db_call (\<lambda>_. returns x))"
    by (rule calls_bind [OF calls_db_call calls_returns])
  then show ?thesis by (simp only: add_0_right)
qed

lemma calls_conn_cursor: "calls 1 conn_cursor"
  unfolding conn_cursor_def by (rule calls_one_call)

lemma calls_cursor_execute: "calls 1 (cursor_execute cur q ps)"
proof -
  have "calls (0 + (1 + 0)) (db_bind (submit q ps) (\<lambda>_. db_bind db_call (\<lambda>_. run_sql q ps)))"
    by (intro calls_bind calls_submit calls_db_call calls_run_sql)
  then show ?thesis by (simp only: cursor_execute_def add_0_right add_0_left)
qed

lemma calls_cursor_fetchall: "calls 1 (cursor_fetchall cur)"
  unfolding cursor_fetchall_def by (rule calls_one_call)

lemma calls_cursor_fetchone: "calls 1 (cursor_fetchone cur)"
  unfolding cursor_fetchone_def by (rule calls_one_call)

lemma calls_cursor_close: "calls 1 (cursor_close cur)"
  unfolding cursor_close_def by (rule calls_db_call)

lemma calls_column_names: "calls 0 (column_names cur)"
  by (simp add: column_names_def calls_returns calls_raises split: option.splits)

lemmas calls_intros = calls_bind calls_case_prod calls_returns calls_lift calls_conn_cursor
  calls_cursor_execute calls_cursor_fetchall calls_cursor_fetchone calls_cursor_close
  calls_column_names calls_conn_commit

lemma calls_get_payments_try: "calls 4 (get_payments_try limit)"
proof -
  have "calls (1 + (1 + (0 + (1 + (1 + 0))))) (get_payments_try limit)"
    unfolding get_payments_try_def by (intro calls_intros)
  moreover have "1 + (1 + (0 + (1 + (1 + 0)))) = (4::nat)" by simp
  ultimately show ?thesis by (simp only:)
qed

lemma calls_add_payment_try: "calls 4 (add_payment_try n a cu pm now)"
proof -
  have "calls (1 + (1 + (1 + (1 + 0)))) (add_payment_try n a cu pm now)"
    unfolding add_payment_try_def by (intro calls_intros)
  moreover have "(1 + (1 + (1 + (1 + 0)))) = (4::nat)" by simp
  ultimately show ?thesis by (simp only:)
qed

lemma calls_update_payment_status_try: "calls 4 (update_payment_status_try pid s now)"
proof -
  have "calls (1 + (1 + (1 + (1 + 0)))) (update_payment_status_try pid s now)"
    unfolding update_payment_status_try_def by (intro calls_intros)
  moreover have "(1 + (1 + (1 + (1 + 0)))) = (4::nat)" by simp
  ultimately show ?thesis by (simp only:)
qed

lemma calls_get_payment_stats_try: "calls 8 (get_payment_stats_try t1 t2)"
proof -
  have "calls (1 + (1 + (1 + (0 + (1 + (1 + (0 + (1 + (1 + (0 + (1 + (0 + 0))))))))))))
     (get_payment_stats_try t1 t2)"
    unfolding get_payment_stats_try_def by (intro calls_intros)
  moreover have "(1 + (1 + (1 + (0 + (1 + (1 + (0 + (1 + (1 + (0 + (1 + (0 + 0)))))))))))) = (8::nat)" by simp
  ultimately show ?thesis by (simp only:)
qed

lemma calls_raises_if_not_quiet:
  assumes "calls n m" "\<not> quiet n c"
  shows "\<exists>e c'. m c = (Inl e, c')"
proof (cases "m c")
  case (Pair r c')
  with assms show ?thesis
    by (cases r) (auto simp: calls_def)
qed

subsection \<open>Failures become fallback values\<close>

lemma get_payments_caught:
  "get_payments_try limit c = (Inl e, c') \<Longrightarrow>
   get_payments (Some c) limit =
     \<lparr>returned = [], st_errors = [''Error fetching payments: '' @ exn_str e], conn_after = Some c'\<rparr>"
  by (simp add: get_payments_def)

lemma add_payment_caught:
  "add_payment_try n a cu pm now c = (Inl e, c') \<Longrightarrow>
   add_payment (Some c) n a cu pm now =
     \<lparr>returned = False, st_errors = [''Error adding payment: '' @ exn_str e], conn_after = Some c'\<rparr>"
  by (simp add: add_payment_def)

lemma update_payment_status_caught:
  "update_payment_status_try pid s now c = (Inl e, c') \<Longrightarrow>
   update_payment_status (Some c) pid s now =
     \<lparr>returned = False, st_errors = [''Error updating payment: '' @ exn_str e], conn_after = Some c'\<rparr>"
  by (simp add: update_payment_status_def)

lemma get_payment_stats_caught:
  "get_payment_stats_try t1 t2 c = (Inl e, c') \<Longrightarrow>
   get_payment_stats (Some c) t1 t2 =
     \<lparr>returned = [], st_errors = [''Error fetching stats: '' @ exn_str e], conn_after = Some c'\<rparr>"
  by (simp add: get_payment_stats_def)

text \<open>
  Claim C5. Each of the four operations turns every failure into its fallback value: with no
  connection it returns the fallback at once (empty list, \<open>False\<close>, \<open>False\<close>, empty
  dictionary); when a driver call among those the operation makes raises, and more generally
  whenever the body of its \<^verbatim>\<open>try\<close> raises an exception \<open>e\<close>, the operation still returns, with
  the fallback value and the one message it shows for \<open>e\<close>.

\<close>

theorem failures_become_fallbacks:
  "get_payments None limit = \<lparr>returned = [], st_errors = [], conn_after = None\<rparr>
   \<and> add_payment None name amt cur meth now =
         \<lparr>returned = False, st_errors = [], conn_after = None\<rparr>
   \<and> update_payment_status None pid new_status now =
         \<lparr>returned = False, st_errors = [], conn_after = None\<rparr>
   \<and> get_payment_stats None now_today now_recent =
         \<lparr>returned = [], st_errors = [], conn_after = None\<rparr>
   \<and> (\<not> quiet 4 c \<longrightarrow>
         (\<exists>e c'. get_payments (Some c) limit =
           \<lparr>returned = [], st_errors = [''Error fetching payments: '' @ exn_str e],
            conn_after = Some c'\<rparr>))
   \<and> (\<not> quiet 4 c \<longrightarrow>
         (\<exists>e c'. add_payment (Some c) name amt cur meth now =
           \<lparr>returned = False, st_errors = [''Error adding payment: '' @ exn_str e],
            conn_after = Some c'\<rparr>))
   \<and> (\<not> quiet 4 c \<longrightarrow>
         (\<exists>e c'. update_payment_status (Some c) pid new_status now =
           \<lparr>returned = False, st_errors = [''Error updating payment: '' @ exn_str e],
            conn_after = Some c'\<rparr>))
   \<and> (\<not> quiet 8 c \<longrightarrow>
         (\<exists>e c'. get_payment_stats (Some c) now_today now_recent =
           \<lparr>returned = [], st_errors = [''Error fetching stats: '' @ exn_str e],
            conn_after = Some c'\<rparr>))
   \<and> (\<forall>e c'. get_payments_try limit c = (Inl e, c') \<longrightarrow>
         get_payments (Some c) limit =
           \<lparr>returned = [], st_errors = [''Error fetching payments: '' @ exn_str e],
            conn_after = Some c'\<rparr>)
   \<and> (\<forall>e c'. add_payment_try name amt cur meth now c = (Inl e, c') \<longrightarrow>
         add_payment (Some c) name amt cur meth now =
           \<lparr>returned = False, st_errors = [''Error adding payment: '' @ exn_str e],
            conn_after = Some c'\<rparr>)
   \<and> (\<forall>e c'. update_payment_status_try pid new_status now c = (Inl e, c') \<longrightarrow>
         update_payment_status (Some c) pid new_status now =
           \<lparr>returned = False, st_errors = [''Error updating payment: '' @ exn_str e],
            conn_after = Some c'\<rparr>)
   \<and> (\<forall>e c'. get_payment_stats_try now_today now_recent c = (Inl e, c') \<longrightarrow>
         get_payment_stats (Some c) now_today now_recent =
           \<lparr>returned = [], st_errors = [''Error fetching stats: '' @ exn_str e],
            conn_after = Some c'\<rparr>)"

proof -
  have none: "get_payments None limit = \<lparr>returned = [], st_errors = [], conn_after = None\<rparr>"
    "add_payment None name amt cur meth now =
       \<lparr>returned = False, st_errors = [], conn_after = None\<rparr>"
    "update_payment_status None pid new_status now =
       \<lparr>returned = False, st_errors = [], conn_after = None\<rparr>"
    "get_payment_stats None now_today now_recent =
       \<lparr>returned = [], st_errors = [], conn_after = None\<rparr>"
    by (simp_all add: get_payments_def add_payment_def update_payment_status_def
        get_payment_stats_def)
  have "\<exists>e c'. get_payments (Some c) limit =
      \<lparr>returned = [], st_errors = [''Error fetching payments: '' @ exn_str e],
       conn_after = Some c'\<rparr>" if nq: "\<not> quiet 4 c"
  proof -
    obtain e c' where "get_payments_try limit c = (Inl e, c')"
      using calls_raises_if_not_quiet [OF calls_get_payments_try nq, of limit] by blast
    from get_payments_caught [OF this] show ?thesis by blast
  qed
  moreover have "\<exists>e c'. add_payment (Some c) name amt cur meth now =
      \<lparr>returned = False, st_errors = [''Error adding payment: '' @ exn_str e],
       conn_after = Some c'\<rparr>" if nq: "\<not> quiet 4 c"
  proof -
    obtain e c' where "add_payment_try name amt cur meth now c = (Inl e, c')"
      using calls_raises_if_not_quiet [OF calls_add_payment_try nq, of name amt cur meth now] by blast
    from add_payment_caught [OF this] show ?thesis by blast
  qed
  moreover have "\<exists>e c'. update_payment_status (Some c) pid new_status now =
      \<lparr>returned = False, st_errors = [''Error updating payment: '' @ exn_str e],
       conn_after = Some c'\<rparr>" if nq: "\<not> quiet 4 c"
  proof -
    obtain e c' where "update_payment_status_try pid new_status now c = (Inl e, c')"
      using calls_raises_if_not_quiet [OF calls_update_payment_status_try nq, of pid new_status now] by blast
    from update_payment_status_caught [OF this] show ?thesis by blast
  qed
  moreover have "\<exists>e c'. get_payment_stats (Some c) now_today now_recent =
      \<lparr>returned = [], st_errors = [''Error fetching stats: '' @ exn_str e],
       conn_after = Some c'\<rparr>" if nq: "\<not> quiet 8 c"
  proof -
    obtain e c' where "get_payment_stats_try now_today now_recent c = (Inl e, c')"
      using calls_raises_if_not_quiet [OF calls_get_payment_stats_try nq, of now_today now_recent] by blast
    from get_payment_stats_caught [OF this] show ?thesis by blast
  qed
  ultimately show ?thesis
    using none
    by (simp add: get_payments_caught add_payment_caught update_payment_status_caught
        get_payment_stats_caught)

qed

theorem failures_become_fallbacks_witness:
  "\<not> quiet 4 lost_conn \<and> \<not> quiet 8 lost_conn
   \<and> returned (get_payments (Some lost_conn) 50) = []
   \<and> returned (add_payment (Some lost_conn) ''Alice'' (4999 / 100) ''USD'' ''credit_card'' 7) = False
   \<and> returned (update_payment_status (Some lost_conn) 1 ''completed'' 7) = False
   \<and> returned (get_payment_stats (Some lost_conn) 7 8) = []"

proof -
  have nq: "\<not> quiet 4 lost_conn" "\<not> quiet 8 lost_conn"
    by (simp_all add: quiet_def lost_conn_def)
  show ?thesis
    using nq failures_become_fallbacks [where c = lost_conn and limit = 50 and name = "''Alice''"
        and amt = "4999 / 100" and cur = "''USD''" and meth = "''credit_card''" and now = 7
        and pid = 1 and new_status = "''completed''" and now_today = 7 and now_recent = 8]
    by auto

qed

subsection \<open>Runs in which no driver call raises\<close>

lemma sql_list_ok:
  "0 \<le> n \<Longrightarrow> sql_list [PyInt n] c =
     (Inr \<lparr>description = Some payment_columns,
            result_rows = take (nat n) (map payment_tuple (order_by_created_at_desc (rows c)))\<rparr>, c)"
  by simp

lemma dicts_of_rows:
  "map (\<lambda>row. dict_of_pairs (zip payment_columns row)) (take n (map payment_tuple ps)) =
   map payment_dict (take n ps)"
  by (simp add: take_map payment_dict_def)

lemma get_payments_try_quiet:
  assumes "quiet 4 c" "0 \<le> limit"
  shows "get_payments_try limit c =
     (Inr (map payment_dict (take (nat limit) (order_by_created_at_desc (rows c)))),
      c\<lparr>faults := drop 4 (faults c), submitted := submitted c @ [(Q_LIST, [PyInt limit])]\<rparr>)"

proof -
  have h: "head_ok (faults c)" "head_ok (drop 1 (faults c))" "head_ok (drop 2 (faults c))"
    "head_ok (drop 3 (faults c))"
    using quiet_head_ok [OF assms(1), of 0] quiet_head_ok [OF assms(1), of 1]
      quiet_head_ok [OF assms(1), of 2] quiet_head_ok [OF assms(1), of 3] by simp_all
  show ?thesis
    using h assms(2)
    by (simp add: get_payments_try_def driver_defs steps db_bind_apply [OF sql_list_ok]
        returns_def eval_nat_numeral dicts_of_rows)

qed

lemma get_payments_quiet:
  assumes "quiet 4 c" "0 \<le> limit"
  shows "get_payments (Some c) limit =
     \<lparr>returned = map payment_dict (take (nat limit) (order_by_created_at_desc (rows c))),
      st_errors = [],
      conn_after = Some (c\<lparr>faults := drop 4 (faults c),
                             submitted := submitted c @ [(Q_LIST, [PyInt limit])]\<rparr>)\<rparr>"
  by (simp add: get_payments_def get_payments_try_quiet [OF assms])

lemma get_payments_faulty:
  assumes "\<not> quiet 4 c"
  shows "returned (get_payments (Some c) limit) = []"

proof -
  obtain e c' where "get_payments_try limit c = (Inl e, c')"
    using calls_raises_if_not_quiet [OF calls_get_payments_try assms] by blast
  then show ?thesis by (simp add: get_payments_def)

qed

lemma sorted_order_by_created_at_desc:
  "sorted_wrt (\<lambda>a b. created_at b \<le> created_at a) (order_by_created_at_desc ps)"

proof -
  have "sorted (map (\<lambda>p. - created_at p) (order_by_created_at_desc ps))"
    unfolding order_by_created_at_desc_def by (rule sorted_sort_key)
  then show ?thesis by (simp add: sorted_map)

qed

lemma sorted_wrt_take_prefix: "sorted_wrt R xs \<Longrightarrow> sorted_wrt R (take n xs)"
  by (metis append_take_drop_id sorted_wrt_append)

lemma sorted_dicts:
  "sorted_wrt not_older (map payment_dict (take n (order_by_created_at_desc ps)))"
  by (simp add: sorted_wrt_map not_older_payment_dict sorted_wrt_take_prefix
      sorted_order_by_created_at_desc)

lemma set_order_by_created_at_desc [simp]: "set (order_by_created_at_desc ps) = set ps"
  by (simp add: order_by_created_at_desc_def)

lemma length_order_by_created_at_desc [simp]:
  "length (order_by_created_at_desc ps) = length ps"
  by (simp add: order_by_created_at_desc_def)

text \<open>
  Claim C1. For a positive \<open>limit\<close>, \<open>get_payments\<close> returns at most \<open>limit\<close> dictionaries,
  each the dictionary of a row of the table, ordered by \<open>created_at\<close> descending (each element
  is not older than every later one); when no driver call raises they are exactly the first
  \<open>limit\<close> rows in that order. With no connection, and with an empty table, the result is the
  empty list.

\<close>

theorem get_payments_capped_and_sorted:
  assumes "0 < limit"
  shows "length (returned (get_payments conn limit)) \<le> nat limit
     \<and> sorted_wrt not_older (returned (get_payments conn limit))
     \<and> (conn = None \<longrightarrow>
           get_payments conn limit = \<lparr>returned = [], st_errors = [], conn_after = None\<rparr>)
     \<and> (\<forall>c. conn = Some c \<longrightarrow>
           set (returned (get_payments conn limit)) \<subseteq> payment_dict ` set (rows c))
     \<and> (\<forall>c. conn = Some c \<and> rows c = [] \<longrightarrow> returned (get_payments conn limit) = [])
     \<and> (\<forall>c. conn = Some c \<and> quiet 4 c \<longrightarrow>
           returned (get_payments conn limit) =
             map payment_dict (take (nat limit) (order_by_created_at_desc (rows c)))
           \<and> st_errors (get_payments conn limit) = [])"

proof (cases conn)
  case None
  then show ?thesis by (simp add: get_payments_def)

next
  case (Some c)
  show ?thesis
  proof (cases "quiet 4 c")
    case True
    from assms have "0 \<le> limit" by simp
    note r = get_payments_quiet [OF True this]
    have "set (take (nat limit) (order_by_created_at_desc (rows c))) \<subseteq> set (rows c)"
      using set_take_subset [of "nat limit" "order_by_created_at_desc (rows c)"] by simp
    then have "set (map payment_dict (take (nat limit) (order_by_created_at_desc (rows c))))
        \<subseteq> payment_dict ` set (rows c)"
      by auto
    moreover have "rows c = [] \<Longrightarrow> order_by_created_at_desc (rows c) = []"
      by (simp add: order_by_created_at_desc_def)
    ultimately show ?thesis
      using Some True by (simp add: r sorted_dicts)
  next
    case False
    then show ?thesis
      using Some by (simp add: get_payments_faulty)
  qed

qed

theorem get_payments_capped_and_sorted_witness:
  "(0::int) < 1 \<and> quiet 4 two_rows
   \<and> returned (get_payments (Some two_rows) 1) = [payment_dict bob]
   \<and> length (returned (get_payments (Some two_rows) 1)) \<le> nat 1"
  using get_payments_capped_and_sorted [of 1 "Some two_rows"]
  by (simp add: quiet_def two_rows_def order_by_created_at_desc_def alice_def bob_def)

subsection \<open>Adding a payment and updating a status\<close>

lemma quiet_after:
  assumes "quiet (a + b) c" "faults c' = drop a (faults c)"
  shows "quiet b c'"
  using assms by (simp add: quiet_def take_add)

lemma add_payment_quiet:
  assumes "quiet 4 c"
  shows "add_payment (Some c) name amt cur meth now =
     \<lparr>returned = True, st_errors = [],
      conn_after = Some (c\<lparr>rows := rows c @ [new_payment (next_id c) name amt cur meth now],
        committed := rows c @ [new_payment (next_id c) name amt cur meth now],
        next_id := next_id c + 1,
        faults := drop 4 (faults c),
        submitted := submitted c @ [(Q_INSERT, [PyStr name, PyFloat amt, PyStr cur,
          PyStr ''pending'', PyStr meth, PyDatetime now, PyDatetime now])]\<rparr>)\<rparr>"
  by (simp add: add_payment_def add_payment_try_quiet [OF assms] new_payment_def)

lemma add_payment_faulty:
  assumes "\<not> quiet 4 c"
  shows "returned (add_payment (Some c) name amt cur meth now) = False"

proof -
  obtain e c' where "add_payment_try name amt cur meth now c = (Inl e, c')"
    using calls_raises_if_not_quiet [OF calls_add_payment_try assms] by blast
  then show ?thesis by (simp add: add_payment_def)

qed

lemma insort_newest:
  "\<forall>p \<in> set ps. f x < f p \<Longrightarrow> foldr (insort_key f) ps [x] = x # foldr (insort_key f) ps []"

proof (induction ps)
  case Nil
  then show ?case by simp

next
  case (Cons p ps)
  then have "foldr (insort_key f) ps [x] = x # foldr (insort_key f) ps []" and "\<not> f p \<le> f x"
    by (simp_all add: not_le)
  then show ?case by simp

qed

lemma order_newest_first:
  assumes "\<forall>p \<in> set ps. created_at p < created_at x"
  shows "order_by_created_at_desc (ps @ [x]) = x # order_by_created_at_desc ps"
  using assms insort_newest [of ps "\<lambda>p. - created_at p" x]
  by (simp add: order_by_created_at_desc_def sort_key_def)

lemma sql_update_ok:
  "sql_update [PyStr s, PyDatetime t, PyInt i] c =
     (Inr no_result, c\<lparr>rows := map (set_status s t i) (rows c)\<rparr>)"
  by simp

lemma update_payment_status_try_quiet:
  assumes "quiet 4 c"
  shows "update_payment_status_try pid s now c =
     (Inr True,
      c\<lparr>rows := map (set_status s now pid) (rows c),
        committed := map (set_status s now pid) (rows c),
        faults := drop 4 (faults c),
        submitted := submitted c @ [(Q_UPDATE, [PyStr s, PyDatetime now, PyInt pid])]\<rparr>)"

proof -
  have h: "head_ok (faults c)" "head_ok (drop 1 (faults c))" "head_ok (drop 2 (faults c))"
    "head_ok (drop 3 (faults c))"
    using quiet_head_ok [OF assms, of 0] quiet_head_ok [OF assms, of 1]
      quiet_head_ok [OF assms, of 2] quiet_head_ok [OF assms, of 3] by simp_all
  show ?thesis
    using h
    by (simp add: update_payment_status_try_def driver_defs steps db_bind_apply [OF sql_update_ok]
        returns_def eval_nat_numeral)

qed

lemma update_payment_status_quiet:
  assumes "quiet 4 c"
  shows "update_payment_status (Some c) pid s now =
     \<lparr>returned = True, st_errors = [],
      conn_after = Some (c\<lparr>rows := map (set_status s now pid) (rows c),
        committed := map (set_status s now pid) (rows c),
        faults := drop 4 (faults c),
        submitted := submitted c @ [(Q_UPDATE, [PyStr s, PyDatetime now, PyInt pid])]\<rparr>)\<rparr>"
  by (simp add: update_payment_status_def update_payment_status_try_quiet [OF assms])

lemma update_payment_status_faulty:
  assumes "\<not> quiet 4 c"
  shows "returned (update_payment_status (Some c) pid s now) = False"

proof -
  obtain e c' where "update_payment_status_try pid s now c = (Inl e, c')"
    using calls_raises_if_not_quiet [OF calls_update_payment_status_try assms] by blast
  then show ?thesis by (simp add: update_payment_status_def)

qed

lemma set_status_no_match:
  "pid \<notin> payment_id ` set ps \<Longrightarrow> map (set_status s t pid) ps = ps"
  by (induction ps) (auto simp: set_status_def)

lemma get_payments_all:
  assumes "quiet 4 c" "int (length (rows c)) \<le> limit"
  shows "set (returned (get_payments (Some c) limit)) = payment_dict ` set (rows c)"

proof -
  from assms(2) have "0 \<le> limit" "length (rows c) \<le> nat limit" by simp_all
  then show ?thesis
    by (simp add: get_payments_quiet [OF assms(1)])

qed

lemma dict_fields:
  "map_of (payment_dict p) ''id'' = Some (PyInt (payment_id p))"
  "map_of (payment_dict p) ''status'' = Some (PyStr (status p))"
  "map_of (payment_dict p) ''created_at'' = Some (PyDatetime (created_at p))"
  "map_of (payment_dict p) ''updated_at'' = Some (PyDatetime (updated_at p))"
  by (simp_all add: payment_dict_eq)

text \<open>
  Claim C2, as the code has it. When a connection is there and none of the four driver calls
  raises, \<open>add_payment\<close> hands the driver one \<^verbatim>\<open>INSERT\<close> whose parameters carry the status
  \<^verbatim>\<open>"pending"\<close> and the same clock reading for \<open>created_at\<close> and \<open>updated_at\<close>, commits the
  new row and returns \<open>True\<close>. A following \<open>get_payments\<close> that meets no fault holds the new
  payment when \<open>limit\<close> exceeds the number of rows that were there before, and returns it
  first when \<open>limit\<close> is positive and every earlier row was created strictly before the clock
  reading. With no connection, or when one of the calls raises, the result is \<open>False\<close>.

\<close>

theorem add_payment_writes_pending_row:
  "(quiet 4 c \<longrightarrow>
      (\<exists>c'. add_payment (Some c) name amt cur meth now =
              \<lparr>returned = True, st_errors = [], conn_after = Some c'\<rparr>
         \<and> rows c' = rows c @ [new_payment (next_id c) name amt cur meth now]
         \<and> committed c' = rows c'
         \<and> submitted c' = submitted c @ [(Q_INSERT, [PyStr name, PyFloat amt, PyStr cur,
              PyStr ''pending'', PyStr meth, PyDatetime now, PyDatetime now])]
         \<and> (quiet 8 c \<and> int (length (rows c)) < limit \<longrightarrow>
              payment_dict (new_payment (next_id c) name amt cur meth now)
                \<in> set (returned (get_payments (Some c') limit)))
         \<and> (quiet 8 c \<and> 0 < limit \<and> (\<forall>p \<in> set (rows c). created_at p < now) \<longrightarrow>
              (\<exists>rest. returned (get_payments (Some c') limit) =
                 payment_dict (new_payment (next_id c) name amt cur meth now) # rest))))
   \<and> (\<not> quiet 4 c \<longrightarrow> returned (add_payment (Some c) name amt cur meth now) = False)
   \<and> returned (add_payment None name amt cur meth now) = False
   \<and> map_of (payment_dict (new_payment i name amt cur meth now)) ''status''
         = Some (PyStr ''pending'')
   \<and> map_of (payment_dict (new_payment i name amt cur meth now)) ''created_at''
         = Some (PyDatetime now)
   \<and> map_of (payment_dict (new_payment i name amt cur meth now)) ''updated_at''
         = Some (PyDatetime now)"

proof -
  let ?new = "new_payment (next_id c) name amt cur meth now"
  let ?c' = "c\<lparr>rows := rows c @ [?new], committed := rows c @ [?new], next_id := next_id c + 1,
        faults := drop 4 (faults c),
        submitted := submitted c @ [(Q_INSERT, [PyStr name, PyFloat amt, PyStr cur,
          PyStr ''pending'', PyStr meth, PyDatetime now, PyDatetime now])]\<rparr>"
  have listed: "payment_dict ?new \<in> set (returned (get_payments (Some ?c') limit))"
    if "quiet 8 c" "int (length (rows c)) < limit"
  proof -
    from that(1) have "quiet 4 ?c'"
      by (intro quiet_after [of 4 4 c]) simp_all
    moreover from that(2) have "int (length (rows ?c')) \<le> limit" by simp
    ultimately show ?thesis
      using get_payments_all [of ?c' limit] by simp
  qed
  have first: "\<exists>rest. returned (get_payments (Some ?c') limit) = payment_dict ?new # rest"
    if "quiet 8 c" "0 < limit" "\<forall>p \<in> set (rows c). created_at p < now"
  proof -
    from that(1) have q: "quiet 4 ?c'"
      by (intro quiet_after [of 4 4 c]) simp_all
    from that(3) have "order_by_created_at_desc (rows c @ [?new])
        = ?new # order_by_created_at_desc (rows c)"
      by (intro order_newest_first) (simp add: new_payment_def)
    moreover from that(2) obtain k where "nat limit = Suc k"
      by (cases "nat limit") simp_all
    ultimately show ?thesis
      using that(2) by (simp add: get_payments_quiet [OF q])
  qed
  have "add_payment (Some c) name amt cur meth now =
      \<lparr>returned = True, st_errors = [], conn_after = Some ?c'\<rparr>" if "quiet 4 c"
    using add_payment_quiet [OF that] by simp
  then have ok: "\<exists>c'. add_payment (Some c) name amt cur meth now =
              \<lparr>returned = True, st_errors = [], conn_after = Some c'\<rparr>
         \<and> rows c' = rows c @ [?new]
         \<and> committed c' = rows c'
         \<and> submitted c' = submitted c @ [(Q_INSERT, [PyStr name, PyFloat amt, PyStr cur,
              PyStr ''pending'', PyStr meth, PyDatetime now, PyDatetime now])]
         \<and> (quiet 8 c \<and> int (length (rows c)) < limit \<longrightarrow>
              payment_dict ?new \<in> set (returned (get_payments (Some c') limit)))
         \<and> (quiet 8 c \<and> 0 < limit \<and> (\<forall>p \<in> set (rows c). created_at p < now) \<longrightarrow>
              (\<exists>rest. returned (get_payments (Some c') limit) = payment_dict ?new # rest))"
    if "quiet 4 c"
    using that listed first by (intro exI [of _ ?c']) simp
  have "returned (add_payment None name amt cur meth now) = False"
    by (simp add: add_payment_def)
  with ok show ?thesis
    by (simp add: add_payment_faulty dict_fields) (simp add: new_payment_def)

qed

theorem add_payment_writes_pending_row_witness:
  "quiet 4 two_rows \<and> quiet 8 two_rows \<and> (0::int) < 1
   \<and> list_all (\<lambda>p. created_at p < 3000) (rows two_rows)
   \<and> returned (add_payment (Some two_rows) ''Carol'' 5 ''GBP'' ''paypal'' 3000) = True
   \<and> hd (returned (get_payments
        (conn_after (add_payment (Some two_rows) ''Carol'' 5 ''GBP'' ''paypal'' 3000)) 1))
       = payment_dict (new_payment 3 ''Carol'' 5 ''GBP'' ''paypal'' 3000)"

proof -
  have h: "quiet 4 two_rows" "quiet 8 two_rows" "\<forall>p \<in> set (rows two_rows). created_at p < 3000"
    "next_id two_rows = 3"
    by (simp_all add: quiet_def two_rows_def alice_def bob_def)
  from h add_payment_writes_pending_row [of two_rows "''Carol''" 5 "''GBP''" "''paypal''" 3000 1 0]
  show ?thesis
    by (auto simp: list_all_iff)

qed

text \<open>Claim C2 as the specification words it fails when the table already holds a row with
  a later \<open>created_at\<close> than the clock reads: \<open>get_payments\<close> with \<open>limit = 1\<close> returns that row,
  a completed payment, and not the one just added.\<close>

theorem add_payment_then_list_counterexample:
  "returned (add_payment (Some two_rows) ''Carol'' 5 ''GBP'' ''paypal'' 500) = True
   \<and> returned (get_payments
        (conn_after (add_payment (Some two_rows) ''Carol'' 5 ''GBP'' ''paypal'' 500)) 1)
       = [payment_dict bob]
   \<and> payment_dict (new_payment 3 ''Carol'' 5 ''GBP'' ''paypal'' 500) \<noteq> payment_dict bob
   \<and> map_of (payment_dict bob) ''status'' = Some (PyStr ''completed'')"

proof -
  have q: "quiet 4 two_rows"
    by (simp add: quiet_def two_rows_def)
  have q': "quiet 4 (two_rows\<lparr>rows := r, committed := k, next_id := i, faults := drop 4 (faults two_rows),
      submitted := s\<rparr>)" for r k i s
    by (simp add: quiet_def two_rows_def)
  show ?thesis
    by (simp add: add_payment_quiet [OF q] get_payments_quiet [OF q'] dict_fields)
       (simp add: two_rows_def order_by_created_at_desc_def new_payment_def alice_def bob_def
          payment_dict_eq)

qed

subsection \<open>Fetching again after an update\<close>

lemma updated_row_present:
  assumes "pid \<in> payment_id ` set ps"
  shows "\<exists>d \<in> payment_dict ` set (map (set_status s t pid) ps). map_of d ''id'' = Some (PyInt pid)"

proof -
  from assms obtain p where p: "p \<in> set ps" "payment_id p = pid" by auto
  then have "payment_dict (set_status s t pid p) \<in> payment_dict ` set (map (set_status s t pid) ps)"
    by simp
  moreover from p have "map_of (payment_dict (set_status s t pid p)) ''id'' = Some (PyInt pid)"
    by (simp add: dict_fields set_status_def)
  ultimately show ?thesis by blast

qed

lemma updated_row_fields:
  assumes "d \<in> payment_dict ` set (map (set_status s t pid) ps)"
    and "map_of d ''id'' = Some (PyInt pid)"
  shows "map_of d ''status'' = Some (PyStr s) \<and> map_of d ''updated_at'' = Some (PyDatetime t)"

proof -
  from assms(1) obtain p where d: "d = payment_dict (set_status s t pid p)" by auto
  with assms(2) have "payment_id (set_status s t pid p) = pid"
    by (simp add: dict_fields)
  then have "payment_id p = pid"
    by (simp add: set_status_def split: if_splits)
  with d show ?thesis
    by (simp add: dict_fields set_status_def)

qed

lemma update_payment_status_refetch:
  assumes "quiet 8 c" "int (length (rows c)) \<le> limit"
    and c': "rows c' = map (set_status s t pid) (rows c)" "faults c' = drop 4 (faults c)"
  shows "set (returned (get_payments (Some c') limit)) = payment_dict ` set (rows c')
      \<and> (pid \<in> payment_id ` set (rows c) \<longrightarrow>
            (\<exists>d \<in> set (returned (get_payments (Some c') limit)).
               map_of d ''id'' = Some (PyInt pid)))
      \<and> (\<forall>d \<in> set (returned (get_payments (Some c') limit)).
            map_of d ''id'' = Some (PyInt pid) \<longrightarrow>
            map_of d ''status'' = Some (PyStr s)
            \<and> map_of d ''updated_at'' = Some (PyDatetime t))"

proof -
  from assms(1) c'(2) have "quiet 4 c'"
    by (intro quiet_after [of 4 4 c]) simp_all
  moreover from assms(2) c'(1) have "int (length (rows c')) \<le> limit" by simp
  ultimately have all: "set (returned (get_payments (Some c') limit)) = payment_dict ` set (rows c')"
    by (rule get_payments_all)
  show ?thesis
    unfolding all c'(1)
    using updated_row_present [of pid "rows c" s t] updated_row_fields [of _ s t pid "rows c"]
    by blast

qed

text \<open>
  Claim C3, as the code has it. When a connection is there and none of the four driver calls
  raises, \<open>update_payment_status\<close> hands the driver one \<^verbatim>\<open>UPDATE\<close> keyed by the id, commits
  and returns \<open>True\<close>; afterwards every row with that id has the new status and has
  \<open>updated_at\<close> equal to the clock reading of the call, and a following \<open>get_payments\<close> over
  the whole table shows exactly that. The new \<open>updated_at\<close> is the clock reading, whatever
  the previous value was.

\<close>

theorem update_payment_status_rewrites_row:
  "quiet 4 c \<longrightarrow>
     (\<exists>c'. update_payment_status (Some c) pid new_status now =
             \<lparr>returned = True, st_errors = [], conn_after = Some c'\<rparr>
        \<and> length (rows c') = length (rows c)
        \<and> committed c' = rows c'
        \<and> submitted c' = submitted c @ [(Q_UPDATE, [PyStr new_status, PyDatetime now, PyInt pid])]
        \<and> (\<forall>i < length (rows c). payment_id (rows c ! i) = pid \<longrightarrow>
              payment_id (rows c' ! i) = pid \<and> status (rows c' ! i) = new_status
              \<and> updated_at (rows c' ! i) = now)
        \<and> (quiet 8 c \<and> int (length (rows c)) \<le> limit \<longrightarrow>
              set (returned (get_payments (Some c') limit)) = payment_dict ` set (rows c')
              \<and> (pid \<in> payment_id ` set (rows c) \<longrightarrow>
                    (\<exists>d \<in> set (returned (get_payments (Some c') limit)).
                       map_of d ''id'' = Some (PyInt pid)))
              \<and> (\<forall>d \<in> set (returned (get_payments (Some c') limit)).
                    map_of d ''id'' = Some (PyInt pid) \<longrightarrow>
                    map_of d ''status'' = Some (PyStr new_status)
                    \<and> map_of d ''updated_at'' = Some (PyDatetime now))))"

proof
  assume q: "quiet 4 c"
  define c' where "c' = c\<lparr>rows := map (set_status new_status now pid) (rows c),
        committed := map (set_status new_status now pid) (rows c),
        faults := drop 4 (faults c),
        submitted := submitted c @ [(Q_UPDATE, [PyStr new_status, PyDatetime now, PyInt pid])]\<rparr>"
  have c': "rows c' = map (set_status new_status now pid) (rows c)" "committed c' = rows c'"
    "faults c' = drop 4 (faults c)"
    "submitted c' = submitted c @ [(Q_UPDATE, [PyStr new_status, PyDatetime now, PyInt pid])]"
    by (simp_all add: c'_def)
  have 1: "update_payment_status (Some c) pid new_status now =
      \<lparr>returned = True, st_errors = [], conn_after = Some c'\<rparr>"
    using update_payment_status_quiet [OF q] by (simp add: c'_def)
  have 2: "length (rows c') = length (rows c)"
    by (simp add: c')
  have 3: "\<forall>i < length (rows c). payment_id (rows c ! i) = pid \<longrightarrow>
      payment_id (rows c' ! i) = pid \<and> status (rows c' ! i) = new_status
      \<and> updated_at (rows c' ! i) = now"
    by (simp add: c' set_status_def)
  have 4: "quiet 8 c \<and> int (length (rows c)) \<le> limit \<longrightarrow>
      set (returned (get_payments (Some c') limit)) = payment_dict ` set (rows c')
      \<and> (pid \<in> payment_id ` set (rows c) \<longrightarrow>
            (\<exists>d \<in> set (returned (get_payments (Some c') limit)).
               map_of d ''id'' = Some (PyInt pid)))
      \<and> (\<forall>d \<in> set (returned (get_payments (Some c') limit)).
            map_of d ''id'' = Some (PyInt pid) \<longrightarrow>
            map_of d ''status'' = Some (PyStr new_status)
            \<and> map_of d ''updated_at'' = Some (PyDatetime now))"
    using update_payment_status_refetch [OF _ _ c'(1) c'(3)] by blast
  from 1 2 c'(2) c'(4) 3 4
  show "\<exists>c'. update_payment_status (Some c) pid new_status now =
             \<lparr>returned = True, st_errors = [], conn_after = Some c'\<rparr>
        \<and> length (rows c') = length (rows c)
        \<and> committed c' = rows c'
        \<and> submitted c' = submitted c @ [(Q_UPDATE, [PyStr new_status, PyDatetime now, PyInt pid])]
        \<and> (\<forall>i < length (rows c). payment_id (rows c ! i) = pid \<longrightarrow>
              payment_id (rows c' ! i) = pid \<and> status (rows c' ! i) = new_status
              \<and> updated_at (rows c' ! i) = now)
        \<and> (quiet 8 c \<and> int (length (rows c)) \<le> limit \<longrightarrow>
              set (returned (get_payments (Some c') limit)) = payment_dict ` set (rows c')
              \<and> (pid \<in> payment_id ` set (rows c) \<longrightarrow>
                    (\<exists>d \<in> set (returned (get_payments (Some c') limit)).
                       map_of d ''id'' = Some (PyInt pid)))
              \<and> (\<forall>d \<in> set (returned (get_payments (Some c') limit)).
                    map_of d ''id'' = Some (PyInt pid) \<longrightarrow>
                    map_of d ''status'' = Some (PyStr new_status)
                    \<and> map_of d ''updated_at'' = Some (PyDatetime now)))"
    by (intro exI [of _ c'] conjI)

qed

theorem update_payment_status_rewrites_row_witness:
  "quiet 4 two_rows \<and> quiet 8 two_rows \<and> int (length (rows two_rows)) \<le> 50
   \<and> 2 \<in> payment_id ` set (rows two_rows)
   \<and> returned (update_payment_status (Some two_rows) 2 ''refunded'' 3000) = True
   \<and> list_ex (\<lambda>d. map_of d ''id'' = Some (PyInt 2))
        (returned (get_payments
           (conn_after (update_payment_status (Some two_rows) 2 ''refunded'' 3000)) 50))
   \<and> list_all (\<lambda>d. map_of d ''id'' = Some (PyInt 2) \<longrightarrow>
          map_of d ''status'' = Some (PyStr ''refunded'')
          \<and> map_of d ''updated_at'' = Some (PyDatetime 3000))
        (returned (get_payments
           (conn_after (update_payment_status (Some two_rows) 2 ''refunded'' 3000)) 50))"

proof -
  have h: "quiet 4 two_rows" "quiet 8 two_rows" "int (length (rows two_rows)) \<le> 50"
    "2 \<in> payment_id ` set (rows two_rows)"
    by (simp_all add: quiet_def two_rows_def alice_def bob_def)
  from h update_payment_status_rewrites_row [of two_rows 2 "''refunded''" 3000 50]
  obtain c' where c': "update_payment_status (Some two_rows) 2 ''refunded'' 3000 =
      \<lparr>returned = True, st_errors = [], conn_after = Some c'\<rparr>"
    and "\<exists>d \<in> set (returned (get_payments (Some c') 50)). map_of d ''id'' = Some (PyInt 2)"
    and "\<forall>d \<in> set (returned (get_payments (Some c') 50)).
           map_of d ''id'' = Some (PyInt 2) \<longrightarrow>
           map_of d ''status'' = Some (PyStr ''refunded'')
           \<and> map_of d ''updated_at'' = Some (PyDatetime 3000)"
    by blast
  with h show ?thesis
    by (simp add: list_all_iff list_ex_iff)

qed

text \<open>Claim C3 as the specification words it fails when the clock does not read later than
  the row's \<open>updated_at\<close>: the row updated at 2500 is rewritten with the reading 2400.\<close>

theorem update_payment_status_counterexample:
  "updated_at bob = 2500
   \<and> returned (update_payment_status (Some two_rows) 2 ''refunded'' 2400) = True
   \<and> returned (get_payments
        (conn_after (update_payment_status (Some two_rows) 2 ''refunded'' 2400)) 50)
       = [payment_dict (bob\<lparr>status := ''refunded'', updated_at := 2400\<rparr>), payment_dict alice]
   \<and> \<not> updated_at bob < updated_at (bob\<lparr>status := ''refunded'', updated_at := 2400\<rparr>)"

proof -
  have q: "quiet 4 two_rows"
    by (simp add: quiet_def two_rows_def)
  have q': "quiet 4 (two_rows\<lparr>rows := r, committed := k, faults := drop 4 (faults two_rows),
      submitted := s\<rparr>)" for r k s
    by (simp add: quiet_def two_rows_def)
  show ?thesis
    by (simp add: update_payment_status_quiet [OF q] get_payments_quiet [OF q'])
       (simp add: two_rows_def order_by_created_at_desc_def set_status_def alice_def bob_def)

qed

text \<open>
  Claim C4, as the code has it. \<open>update_payment_status\<close> never looks at the number of rows
  the statement touched: it returns \<open>True\<close> exactly when none of its four driver calls
  raises. For an id that matches no row and a run without a fault it returns \<open>True\<close>, shows
  no message and leaves the table as it was.

\<close>

theorem update_payment_status_unknown_id:
  "returned (update_payment_status (Some c) pid new_status now) = quiet 4 c
   \<and> (quiet 4 c \<and> pid \<notin> payment_id ` set (rows c) \<longrightarrow>
        (\<exists>c'. update_payment_status (Some c) pid new_status now =
                \<lparr>returned = True, st_errors = [], conn_after = Some c'\<rparr>
           \<and> rows c' = rows c \<and> committed c' = rows c))"

proof (cases "quiet 4 c")
  case True
  then show ?thesis
    by (simp add: update_payment_status_quiet set_status_no_match)

next
  case False
  then show ?thesis
    by (simp add: update_payment_status_faulty)

qed

theorem update_payment_status_unknown_id_witness:
  "quiet 4 two_rows \<and> 99 \<notin> payment_id ` set (rows two_rows)
   \<and> update_payment_status (Some two_rows) 99 ''completed'' 3000 =
       \<lparr>returned = True, st_errors = [],
        conn_after = conn_after (update_payment_status (Some two_rows) 99 ''completed'' 3000)\<rparr>"

proof -
  have h: "quiet 4 two_rows" "99 \<notin> payment_id ` set (rows two_rows)"
    by (simp_all add: quiet_def two_rows_def alice_def bob_def)
  from h update_payment_status_unknown_id [of two_rows 99 "''completed''" 3000]
  show ?thesis
    by auto

qed

text \<open>Claim C4 as the specification words it fails on the table of two payments: no row has
  the id 99, and the call returns \<open>True\<close> and shows no error.\<close>

theorem update_payment_status_unknown_id_counterexample:
  "99 \<notin> payment_id ` set (rows two_rows)
   \<and> returned (update_payment_status (Some two_rows) 99 ''completed'' 3000) = True
   \<and> st_errors (update_payment_status (Some two_rows) 99 ''completed'' 3000) = []"

proof -
  have q: "quiet 4 two_rows"
    by (simp add: quiet_def two_rows_def)
  show ?thesis
    by (simp add: update_payment_status_quiet [OF q]) (simp add: two_rows_def alice_def bob_def)

qed

subsection \<open>Properties of the table that every outcome keeps\<close>

lemma preserves_bind:
  assumes "preserves I m" "\<And>x. preserves I (f x)"
  shows "preserves I (db_bind m f)"
  unfolding preserves_def

proof (intro allI impI)
  fix c r c'
  assume I: "I c" and run: "db_bind m f c = (r, c')"
  obtain r1 c1 where m: "m c = (r1, c1)" by (cases "m c")
  with assms(1) I have I1: "I c1" by (auto simp: preserves_def)
  show "I c'"
  proof (cases r1)
    case (Inl e)
    with m run have "c' = c1" by (simp add: db_bind_def)
    with I1 show ?thesis by simp
  next
    case (Inr x)
    with m run have "f x c1 = (r, c')" by (simp add: db_bind_def)
    with assms(2) I1 show ?thesis by (auto simp: preserves_def)
  qed

qed

lemma preserves_case_prod: "(\<And>a b. preserves I (g a b)) \<Longrightarrow> preserves I (case_prod g p)"
  by (cases p) simp

lemma preserves_returns: "preserves I (returns x)"
  by (simp add: preserves_def returns_def)

lemma preserves_raises: "preserves I (raises e)"
  by (simp add: preserves_def raises_def)

lemma preserves_lift: "preserves I (lift r)"
  by (simp add: preserves_def lift_def)

lemma preserves_db_call: "preserves (on_table P) db_call"
  by (auto simp: preserves_def on_table_def db_call_def split: list.splits option.splits)

lemma preserves_submit: "preserves (on_table P) (submit q ps)"
  by (auto simp: preserves_def on_table_def submit_def)

lemma preserves_conn_commit:
  assumes "\<And>r k. P r k \<Longrightarrow> P r r \<and> P k k"
  shows "preserves (on_table P) conn_commit"
  using assms
  by (auto simp: preserves_def on_table_def conn_commit_def db_call_def
      split: list.splits option.splits)

lemma sql_list_reads: "snd (sql_list ps c) = c"
  by (induction ps c rule: sql_list.induct) simp_all

lemma sql_today_reads: "snd (sql_today ps c) = c"
  by (induction ps c rule: sql_today.induct) (simp_all add: Let_def)

lemma sql_status_reads: "snd (sql_status ps c) = c"
  by (induction ps c rule: sql_status.induct) simp_all

lemma sql_recent_reads: "snd (sql_recent ps c) = c"
  by (induction ps c rule: sql_recent.induct) simp_all

lemma preserves_reads:
  assumes "\<And>c. snd (m c) = c"
  shows "preserves I m"
  unfolding preserves_def

proof (intro allI impI)
  fix c r c'
  assume "I c" "m c = (r, c')"
  with assms [of c] show "I c'" by simp

qed

lemma preserves_selects:
  "preserves I (run_sql Q_LIST ps)" "preserves I (run_sql Q_TODAY ps)"
  "preserves I (run_sql Q_STATUS ps)" "preserves I (run_sql Q_RECENT ps)"
  by (simp_all add: run_sql_simps preserves_reads sql_list_reads sql_today_reads
      sql_status_reads sql_recent_reads)

lemma preserves_update:
  assumes "\<And>r k. P r k \<Longrightarrow> P (map (set_status s t i) r) k"
  shows "preserves (on_table P) (run_sql Q_UPDATE [PyStr s, PyDatetime t, PyInt i])"
  using assms by (auto simp: run_sql_simps preserves_def on_table_def)

lemma preserves_insert:
  assumes "\<And>r k i. P r k \<Longrightarrow> P (r @ [new_payment i name amt cur meth now]) k"
  shows "preserves (on_table P) (run_sql Q_INSERT [PyStr name, PyFloat amt, PyStr cur,
     PyStr ''pending'', PyStr meth, PyDatetime now, PyDatetime now])"
  using assms by (auto simp: run_sql_simps preserves_def on_table_def sql_insert_ok new_payment_def)

lemma preserves_conn_cursor: "preserves (on_table P) conn_cursor"
  unfolding conn_cursor_def by (intro preserves_bind preserves_db_call preserves_returns)

lemma preserves_cursor_execute:
  "preserves (on_table P) (run_sql q ps) \<Longrightarrow> preserves (on_table P) (cursor_execute cur q ps)"
  unfolding cursor_execute_def by (intro preserves_bind preserves_db_call preserves_submit)

lemma preserves_cursor_fetchall: "preserves (on_table P) (cursor_fetchall cur)"
  unfolding cursor_fetchall_def by (intro preserves_bind preserves_db_call preserves_returns)

lemma preserves_cursor_fetchone: "preserves (on_table P) (cursor_fetchone cur)"
  unfolding cursor_fetchone_def by (intro preserves_bind preserves_db_call preserves_returns)

lemma preserves_cursor_close: "preserves (on_table P) (cursor_close cur)"
  unfolding cursor_close_def by (rule preserves_db_call)

lemma preserves_column_names: "preserves I (column_names cur)"
  by (simp add: column_names_def preserves_returns preserves_raises split: option.splits)

lemmas preserves_intros = preserves_bind preserves_case_prod preserves_returns preserves_lift
  preserves_conn_cursor preserves_cursor_execute preserves_cursor_fetchall
  preserves_cursor_fetchone preserves_cursor_close preserves_column_names preserves_selects

lemma preserves_get_payments_try: "preserves (on_table P) (get_payments_try limit)"
  unfolding get_payments_try_def by (intro preserves_intros)

lemma preserves_get_payment_stats_try: "preserves (on_table P) (get_payment_stats_try t1 t2)"
  unfolding get_payment_stats_try_def by (intro preserves_intros)

lemma preserves_update_payment_status_try:
  assumes "\<And>r k. P r k \<Longrightarrow> P r r \<and> P k k"
    and "\<And>r k. P r k \<Longrightarrow> P (map (set_status s now pid) r) k"
  shows "preserves (on_table P) (update_payment_status_try pid s now)"
  unfolding update_payment_status_try_def
  by (intro preserves_intros preserves_update preserves_conn_commit assms)

lemma preserves_add_payment_try:
  assumes "\<And>r k. P r k \<Longrightarrow> P r r \<and> P k k"
    and "\<And>r k i. P r k \<Longrightarrow> P (r @ [new_payment i name amt cur meth now]) k"
  shows "preserves (on_table P) (add_payment_try name amt cur meth now)"
  unfolding add_payment_try_def
  by (intro preserves_intros preserves_insert preserves_conn_commit assms)

lemma conn_after_get_payments:
  "conn_after (get_payments (Some c) limit) = Some (snd (get_payments_try limit c))"
  by (simp add: get_payments_def split: prod.splits sum.splits)

lemma conn_after_add_payment:
  "conn_after (add_payment (Some c) name amt cur meth now) =
     Some (snd (add_payment_try name amt cur meth now c))"
  by (simp add: add_payment_def split: prod.splits sum.splits)

lemma conn_after_update_payment_status:
  "conn_after (update_payment_status (Some c) pid s now) =
     Some (snd (update_payment_status_try pid s now c))"
  by (simp add: update_payment_status_def split: prod.splits sum.splits)

lemma conn_after_get_payment_stats:
  "conn_after (get_payment_stats (Some c) t1 t2) = Some (snd (get_payment_stats_try t1 t2 c))"
  by (simp add: get_payment_stats_def split: prod.splits sum.splits)

lemma preservesD: "preserves I m \<Longrightarrow> I c \<Longrightarrow> I (snd (m c))"
  by (cases "m c") (auto simp: preserves_def)

lemma only_status_changed_refl: "only_status_changed pid p p"
  by (simp add: only_status_changed_def)

lemma only_status_changed_set_status:
  "only_status_changed pid p q \<Longrightarrow> only_status_changed pid p (set_status s t pid q)"
  by (auto simp: only_status_changed_def set_status_def)

lemma frame_after_update:
  "list_all2 (only_status_changed pid) r0 r \<Longrightarrow>
   list_all2 (only_status_changed pid) r0 (map (set_status s t pid) r)"
  by (simp add: list_all2_map2 list_all2_mono only_status_changed_set_status)

text \<open>
  Claim C7. Whatever way a call of \<open>update_payment_status\<close> ends, every row of the table
  keeps its id, customer name, amount, currency, payment method and \<open>created_at\<close>, and every
  row whose id is not the one given is unchanged altogether; the table has the same rows in
  the same places, so nothing is added or removed. This holds for what the session sees and
  for what is durable.

\<close>

theorem update_payment_status_frame:
  assumes "in_sync c"
  shows "\<exists>c'. conn_after (update_payment_status (Some c) pid new_status now) = Some c'
     \<and> list_all2 (only_status_changed pid) (rows c) (rows c')
     \<and> list_all2 (only_status_changed pid) (rows c) (committed c')"

proof -
  let ?P = "\<lambda>r k. list_all2 (only_status_changed pid) (rows c) r
      \<and> list_all2 (only_status_changed pid) (rows c) k"
  have "preserves (on_table ?P) (update_payment_status_try pid new_status now)"
    by (rule preserves_update_payment_status_try) (simp_all add: frame_after_update)
  moreover from assms have "on_table ?P c"
    by (simp add: on_table_def in_sync_def list_all2_refl only_status_changed_refl)
  ultimately have "on_table ?P (snd (update_payment_status_try pid new_status now c))"
    by (rule preservesD)
  then show ?thesis
    by (simp add: conn_after_update_payment_status on_table_def)

qed

theorem update_payment_status_frame_witness:
  "in_sync two_rows
   \<and> (case conn_after (update_payment_status (Some two_rows) 2 ''refunded'' 3000) of
        None \<Rightarrow> False
      | Some c' \<Rightarrow> list_all2 (only_status_changed 2) [alice, bob] (rows c')
          \<and> list_all2 (only_status_changed 2) [alice, bob] (committed c'))"

proof -
  have h: "in_sync two_rows" "rows two_rows = [alice, bob]"
    by (simp_all add: in_sync_def two_rows_def)
  from update_payment_status_frame [OF h(1), of 2 "''refunded''" 3000] h show ?thesis
    by auto

qed

subsection \<open>Timestamps under a clock that does not go back\<close>

lemma stamped_later: "stamped t r k \<Longrightarrow> t \<le> t' \<Longrightarrow> stamped t' r k"
  by (fastforce simp: stamped_def created_by_def list_all_iff)

lemma stamped_commit: "stamped t r k \<Longrightarrow> stamped t r r \<and> stamped t k k"
  by (simp add: stamped_def)

lemma stamped_insert:
  "stamped now r k \<Longrightarrow> stamped now (r @ [new_payment i name amt cur meth now]) k"
  by (simp add: stamped_def timestamps_ordered_def created_by_def new_payment_def)

lemma stamped_update:
  assumes "stamped now r k"
  shows "stamped now (map (set_status s now pid) r) k"

proof -
  have "created_at (set_status s now pid p) \<le> updated_at (set_status s now pid p)"
    if "created_at p \<le> updated_at p" "created_at p \<le> now" for p
    using that by (simp add: set_status_def)
  moreover have "created_at (set_status s now pid p) = created_at p" for p
    by (simp add: set_status_def)
  ultimately show ?thesis
    using assms
    by (simp add: stamped_def timestamps_ordered_def created_by_def list_all_iff)

qed

lemma perform_keeps_stamped:
  assumes "on_table (stamped t) c" "sorted (t # readings op)"
  shows "\<exists>c'. perform (Some c) op = Some c' \<and> on_table (stamped (last (t # readings op))) c'"

proof (cases op)
  case (GetPayments limit)
  from preservesD [OF preserves_get_payments_try assms(1), of limit] GetPayments
  show ?thesis by (simp add: conn_after_get_payments)

next
  case (AddPayment name amt cur meth now)
  with assms(2) have "t \<le> now" by simp
  with assms(1) have "on_table (stamped now) c"
    by (simp add: on_table_def stamped_later)
  moreover have "preserves (on_table (stamped now)) (add_payment_try name amt cur meth now)"
    by (rule preserves_add_payment_try) (simp_all add: stamped_commit stamped_insert)
  ultimately have "on_table (stamped now) (snd (add_payment_try name amt cur meth now c))"
    by (rule preservesD [rotated])
  with AddPayment show ?thesis by (simp add: conn_after_add_payment)

next
  case (UpdatePaymentStatus pid s now)
  with assms(2) have "t \<le> now" by simp
  with assms(1) have "on_table (stamped now) c"
    by (simp add: on_table_def stamped_later)
  moreover have "preserves (on_table (stamped now)) (update_payment_status_try pid s now)"
    by (rule preserves_update_payment_status_try) (simp_all add: stamped_commit stamped_update)
  ultimately have "on_table (stamped now) (snd (update_payment_status_try pid s now c))"
    by (rule preservesD [rotated])
  with UpdatePaymentStatus show ?thesis by (simp add: conn_after_update_payment_status)

next
  case (GetPaymentStats a b)
  with assms(2) have "t \<le> b" by simp
  from preservesD [OF preserves_get_payment_stats_try assms(1), of a b]
  have "on_table (stamped t) (snd (get_payment_stats_try a b c))" .
  with \<open>t \<le> b\<close> have "on_table (stamped b) (snd (get_payment_stats_try a b c))"
    by (simp add: on_table_def stamped_later)
  with GetPaymentStats show ?thesis by (simp add: conn_after_get_payment_stats)

qed

lemma sorted_readings_split:
  assumes "sorted (t # rs @ rest)"
  shows "sorted (t # rs) \<and> sorted (last (t # rs) # rest)"

proof -
  from assms have s: "sorted ((t # rs) @ rest)" by simp
  then have 1: "sorted (t # rs)" "sorted rest" "\<forall>x \<in> set (t # rs). \<forall>y \<in> set rest. x \<le> y"
    unfolding sorted_append by simp_all
  have "last (t # rs) \<in> set (t # rs)" by (rule last_in_set) simp
  with 1(3) have "\<forall>y \<in> set rest. last (t # rs) \<le> y" by blast
  with 1 show ?thesis by simp

qed

lemma run_keeps_stamped:
  "on_table (stamped t) c \<Longrightarrow> sorted (t # clock_readings ops) \<Longrightarrow>
   \<exists>c' t'. run (Some c) ops = Some c' \<and> on_table (stamped t') c'"

proof (induction ops arbitrary: c t)
  case Nil
  then show ?case by (auto simp: run_def)

next
  case (Cons op ops)
  from Cons.prems(2) have "sorted (t # readings op @ clock_readings ops)"
    by (simp add: clock_readings_def)
  then have s: "sorted (t # readings op)" "sorted (last (t # readings op) # clock_readings ops)"
    using sorted_readings_split by blast+
  from perform_keeps_stamped [OF Cons.prems(1) s(1)]
  obtain c1 where c1: "perform (Some c) op = Some c1"
    "on_table (stamped (last (t # readings op))) c1" by blast
  from Cons.IH [OF c1(2) s(2)] obtain c' t' where "run (Some c1) ops = Some c'"
    "on_table (stamped t') c'" by blast
  with c1(1) show ?case by (auto simp: run_def)

qed

text \<open>
  Claim C8. Start from a table in which every row has \<open>created_at \<le> updated_at\<close> and was
  created no later than \<open>t0\<close>, with no uncommitted write pending. After any sequence of the
  four operations, whichever of them fail, whose clock readings follow \<open>t0\<close> without going
  back, every row still has \<open>created_at \<le> updated_at\<close>, in the table the session sees and in
  the durable one. The empty table is such a start.

\<close>

theorem timestamps_stay_ordered:
  assumes "in_sync c" "timestamps_ordered (rows c)" "created_by t0 (rows c)"
    and "sorted (t0 # clock_readings ops)"
  shows "\<exists>c'. run (Some c) ops = Some c'
     \<and> timestamps_ordered (rows c') \<and> timestamps_ordered (committed c')"

proof -
  from assms(1-3) have "on_table (stamped t0) c"
    by (simp add: on_table_def stamped_def in_sync_def)
  from run_keeps_stamped [OF this assms(4)] show ?thesis
    by (auto simp: on_table_def stamped_def)

qed

theorem timestamps_stay_ordered_witness:
  "in_sync two_rows \<and> timestamps_ordered (rows two_rows) \<and> created_by 2000 (rows two_rows)
   \<and> sorted (2000 # clock_readings busy_day)
   \<and> (case run (Some two_rows) busy_day of
        None \<Rightarrow> False
      | Some c' \<Rightarrow> timestamps_ordered (rows c') \<and> timestamps_ordered (committed c'))"

proof -
  have h: "in_sync two_rows" "timestamps_ordered (rows two_rows)"
    "created_by 2000 (rows two_rows)" "sorted (2000 # clock_readings busy_day)"
    by (simp_all add: in_sync_def timestamps_ordered_def created_by_def two_rows_def alice_def
        bob_def clock_readings_def busy_day_def)
  from timestamps_stay_ordered [OF h] h show ?thesis
    by auto

qed

subsection \<open>The statistics of a run without faults\<close>

lemma update_fresh: "k \<notin> fst ` set al \<Longrightarrow> AList.update k v al = al @ [(k, v)]"
  by (induction al) auto

lemma foldl_update_distinct:
  "distinct (map fst (acc @ kvs)) \<Longrightarrow>
   foldl (\<lambda>d (k, v). AList.update k v d) acc kvs = acc @ kvs"

proof (induction kvs arbitrary: acc)
  case Nil
  then show ?case by simp

next
  case (Cons kv kvs)
  obtain k v where kv: "kv = (k, v)" by (cases kv)
  with Cons.prems have "k \<notin> fst ` set acc" by auto
  then have "AList.update k v acc = acc @ [(k, v)]" by (rule update_fresh)
  moreover from Cons.prems kv have "distinct (map fst ((acc @ [(k, v)]) @ kvs))" by simp
  ultimately show ?case
    using Cons.IH [of "acc @ [(k, v)]"] kv by simp

qed

lemma dict_of_pairs_distinct: "distinct (map fst kvs) \<Longrightarrow> dict_of_pairs kvs = kvs"
  using foldl_update_distinct [of "[]" kvs] by (simp add: dict_of_pairs_def)

lemma pairs_of_groups:
  "pairs_of (map (\<lambda>s. [PyStr s, v s]) ss) = Inr (map (\<lambda>s. (PyStr s, v s)) ss)"
  by (induction ss) simp_all

lemma py_dict_groups:
  "py_dict (map (\<lambda>s. [PyStr s, count_rows (filter (\<lambda>p. status p = s) ps)])
      (remdups (map status ps))) = Inr (PyDict (status_counts ps))"

proof -
  have "distinct (map fst (status_counts ps))"
    by (simp add: status_counts_def comp_def distinct_map inj_on_def)
  then show ?thesis
    by (simp add: py_dict_def pairs_of_groups dict_of_pairs_distinct status_counts_def)

qed

lemma count_or_zero: "py_or (count_rows ps) (PyInt 0) = count_rows ps"
  by (simp add: py_or_def count_rows_def)

lemma total_as_float:
  "py_float (py_or (coalesce (sql_sum xs) (PyDecimal 0)) (PyInt 0)) = Inr (PyFloat (sum_list xs))"
  by (simp add: py_or_def coalesce_def sql_sum_def)

lemma sql_today_ok:
  "sql_today [PyDate d] c =
     (Inr \<lparr>description = Some [''count'', ''coalesce''],
           result_rows = [[count_rows (filter (\<lambda>p. date_of (created_at p) = d) (rows c)),
             coalesce (sql_sum (map amount (filter (\<lambda>p. date_of (created_at p) = d) (rows c))))
               (PyDecimal 0)]]\<rparr>, c)"
  by (simp add: Let_def)

lemma sql_status_ok:
  "sql_status [] c =
     (Inr \<lparr>description = Some [''status'', ''count''],
           result_rows = map (\<lambda>s. [PyStr s, count_rows (filter (\<lambda>p. status p = s) (rows c))])
                             (remdups (map status (rows c)))\<rparr>, c)"
  by simp

lemma sql_recent_ok:
  "sql_recent [PyDatetime t] c =
     (Inr \<lparr>description = Some [''count''],
           result_rows = [[count_rows (filter (\<lambda>p. t \<le> created_at p) (rows c))]]\<rparr>, c)"
  by simp

lemma get_payment_stats_try_quiet:
  assumes "quiet 8 c"
  shows "get_payment_stats_try t1 t2 c =
     (Inr [(''today_count'',
              count_rows (filter (\<lambda>p. date_of (created_at p) = date_of t1) (rows c))),
           (''today_total'',
              PyFloat (sum_list (map amount
                (filter (\<lambda>p. date_of (created_at p) = date_of t1) (rows c))))),
           (''status_distribution'', PyDict (status_counts (rows c))),
           (''recent_activity'',
              count_rows (filter (\<lambda>p. t2 - 3600000000 \<le> created_at p) (rows c)))],
      c\<lparr>faults := drop 8 (faults c),
        submitted := submitted c @ [(Q_TODAY, [PyDate (date_of t1)]), (Q_STATUS, []),
          (Q_RECENT, [PyDatetime (t2 - 3600000000)])]\<rparr>)"

proof -
  have h: "head_ok (faults c)" "head_ok (drop 1 (faults c))" "head_ok (drop 2 (faults c))"
    "head_ok (drop 3 (faults c))" "head_ok (drop 4 (faults c))" "head_ok (drop 5 (faults c))"
    "head_ok (drop 6 (faults c))" "head_ok (drop 7 (faults c))"
    using quiet_head_ok [OF assms, of 0] quiet_head_ok [OF assms, of 1]
      quiet_head_ok [OF assms, of 2] quiet_head_ok [OF assms, of 3]
      quiet_head_ok [OF assms, of 4] quiet_head_ok [OF assms, of 5]
      quiet_head_ok [OF assms, of 6] quiet_head_ok [OF assms, of 7] by simp_all
  show ?thesis
    using h
    by (simp add: get_payment_stats_try_def driver_defs steps
        db_bind_apply [OF sql_today_ok] db_bind_apply [OF sql_status_ok]
        db_bind_apply [OF sql_recent_ok] unpack2_def subscript0_def py_dict_groups
        count_or_zero total_as_float returns_def eval_nat_numeral
        del: sql_today.simps sql_status.simps sql_recent.simps)

qed

lemma get_payment_stats_quiet:
  assumes "quiet 8 c"
  shows "get_payment_stats (Some c) t1 t2 =
     \<lparr>returned =
        [(''today_count'',
            count_rows (filter (\<lambda>p. date_of (created_at p) = date_of t1) (rows c))),
         (''today_total'',
            PyFloat (sum_list (map amount
              (filter (\<lambda>p. date_of (created_at p) = date_of t1) (rows c))))),
         (''status_distribution'', PyDict (status_counts (rows c))),
         (''recent_activity'',
            count_rows (filter (\<lambda>p. t2 - 3600000000 \<le> created_at p) (rows c)))],
      st_errors = [],
      conn_after = Some (c\<lparr>faults := drop 8 (faults c),
        submitted := submitted c @ [(Q_TODAY, [PyDate (date_of t1)]), (Q_STATUS, []),
          (Q_RECENT, [PyDatetime (t2 - 3600000000)])]\<rparr>)\<rparr>"
  by (simp add: get_payment_stats_def get_payment_stats_try_quiet [OF assms])

lemma get_payment_stats_faulty:
  assumes "\<not> quiet 8 c"
  shows "returned (get_payment_stats (Some c) t1 t2) = []"

proof -
  obtain e c' where "get_payment_stats_try t1 t2 c = (Inl e, c')"
    using calls_raises_if_not_quiet [OF calls_get_payment_stats_try assms] by blast
  then show ?thesis by (simp add: get_payment_stats_def)

qed

lemma status_counts_keys: "fst ` set (status_counts ps) = PyStr ` status ` set ps"
  by (force simp: status_counts_def)

lemma status_count_positive: "(k, v) \<in> set (status_counts ps) \<Longrightarrow> v \<noteq> PyInt 0"
  by (auto simp: status_counts_def count_rows_def filter_empty_conv)

lemma status_counts_positive: "PyInt 0 \<notin> snd ` set (status_counts ps)"
  using status_count_positive [of _ "PyInt 0" ps] by force

text \<open>
  Claim C6. With a connection and no fault during the call, \<open>get_payment_stats\<close> on an empty
  table returns \<open>today_count = 0\<close>, \<open>today_total = 0.0\<close>, an empty \<open>status_distribution\<close> and
  \<open>recent_activity = 0\<close>, and shows no error. On any table without a row of the current date
  \<open>today_count\<close> is 0 and \<open>today_total\<close> is the float 0.0, not \<^verbatim>\<open>None\<close>. The distribution has
  one key for each status that occurs in the table and no entry whose count is 0.

\<close>

theorem stats_of_empty_table:
  "(quiet 8 c \<and> rows c = [] \<longrightarrow>
      returned (get_payment_stats (Some c) now_today now_recent) =
        [(''today_count'', PyInt 0), (''today_total'', PyFloat 0),
         (''status_distribution'', PyDict []), (''recent_activity'', PyInt 0)]
      \<and> st_errors (get_payment_stats (Some c) now_today now_recent) = [])
   \<and> (quiet 8 c \<and> (\<forall>p \<in> set (rows c). date_of (created_at p) \<noteq> date_of now_today) \<longrightarrow>
        map_of (returned (get_payment_stats (Some c) now_today now_recent)) ''today_count''
          = Some (PyInt 0)
        \<and> map_of (returned (get_payment_stats (Some c) now_today now_recent)) ''today_total''
          = Some (PyFloat 0))
   \<and> (quiet 8 c \<longrightarrow>
        map_of (returned (get_payment_stats (Some c) now_today now_recent))
          ''status_distribution'' = Some (PyDict (status_counts (rows c))))
   \<and> fst ` set (status_counts ps) = PyStr ` status ` set ps
   \<and> PyInt 0 \<notin> snd ` set (status_counts ps)"

proof -
  have none_today: "filter (\<lambda>p. date_of (created_at p) = date_of now_today) (rows c) = []"
    if "\<forall>p \<in> set (rows c). date_of (created_at p) \<noteq> date_of now_today"
    using that by (simp add: filter_empty_conv)
  show ?thesis
    using status_counts_positive [of ps]
    by (simp add: get_payment_stats_quiet status_counts_keys none_today count_rows_def)
       (simp add: status_counts_def)

qed

theorem stats_of_empty_table_witness:
  "quiet 8 empty_table \<and> rows empty_table = []
   \<and> returned (get_payment_stats (Some empty_table) 7 8) =
        [(''today_count'', PyInt 0), (''today_total'', PyFloat 0),
         (''status_distribution'', PyDict []), (''recent_activity'', PyInt 0)]"

proof -
  have h: "quiet 8 empty_table" "rows empty_table = []"
    by (simp_all add: quiet_def empty_table_def)
  from stats_of_empty_table [of empty_table 7 8 "[]"] h show ?thesis
    by simp

qed

text \<open>
  Claim C10. \<open>get_payment_stats\<close> returns either the empty dictionary or a dictionary with
  exactly the four keys \<open>today_count\<close>, \<open>today_total\<close>, \<open>status_distribution\<close> and
  \<open>recent_activity\<close>, in that order: the empty one with no connection and whenever one of the
  eight driver calls raises, the full one otherwise.

\<close>

theorem get_payment_stats_all_or_nothing:
  "(returned (get_payment_stats conn now_today now_recent) = []
      \<or> map fst (returned (get_payment_stats conn now_today now_recent)) = stats_keys)
   \<and> (conn = None \<longrightarrow> returned (get_payment_stats conn now_today now_recent) = [])
   \<and> (\<forall>c. conn = Some c \<and> \<not> quiet 8 c \<longrightarrow>
         returned (get_payment_stats conn now_today now_recent) = [])
   \<and> (\<forall>c. conn = Some c \<and> quiet 8 c \<longrightarrow>
         map fst (returned (get_payment_stats conn now_today now_recent)) = stats_keys)"

proof (cases conn)
  case None
  then show ?thesis by (simp add: get_payment_stats_def)

next
  case (Some c)
  then show ?thesis
    by (cases "quiet 8 c")
      (simp_all add: get_payment_stats_quiet get_payment_stats_faulty stats_keys_def)

qed

theorem get_payment_stats_all_or_nothing_witness:
  "\<not> quiet 8 lost_conn \<and> returned (get_payment_stats (Some lost_conn) 7 8) = []
   \<and> quiet 8 two_rows
   \<and> map fst (returned (get_payment_stats (Some two_rows) 7 8)) =
       [''today_count'', ''today_total'', ''status_distribution'', ''recent_activity'']"

proof -
  have h: "\<not> quiet 8 lost_conn" "quiet 8 two_rows"
    by (simp_all add: quiet_def lost_conn_def two_rows_def)
  from get_payment_stats_all_or_nothing [of "Some lost_conn" 7 8]
    get_payment_stats_all_or_nothing [of "Some two_rows" 7 8] h
  show ?thesis
    by (simp add: stats_keys_def)

qed

subsection \<open>What each operation hands to the driver\<close>

lemma db_call_fail:
  "\<not> head_ok (faults c) \<Longrightarrow>
   db_bind db_call f c = (Inl (DbError (the (hd (faults c)))), c\<lparr>faults := drop 1 (faults c)\<rparr>)"
  by (auto simp: head_ok_def db_bind_def db_call_def split: list.splits option.splits)

lemma conn_commit_fail:
  "\<not> head_ok (faults c) \<Longrightarrow>
   db_bind conn_commit f c =
     (Inl (DbError (the (hd (faults c)))), c\<lparr>faults := drop 1 (faults c), rows := committed c\<rparr>)"
  by (auto simp: head_ok_def db_bind_def conn_commit_def db_call_def
      split: list.splits option.splits)

lemma db_bind_sql_list:
  "db_bind (sql_list [PyInt n]) f c =
     (if n < 0 then (Inl (DbError ''LIMIT must not be negative''), c)
      else f \<lparr>description = Some payment_columns,
               result_rows = take (nat n) (map payment_tuple (order_by_created_at_desc (rows c)))\<rparr> c)"
  by (simp add: db_bind_def)

lemma quiet_Suc_head: "quiet (Suc n) c = (quiet n c \<and> head_ok (drop n (faults c)))"

proof (cases "n < length (faults c)")
  case True
  then have "drop n (faults c) = faults c ! n # drop (Suc n) (faults c)"
    by (simp add: Cons_nth_drop_Suc)
  with True show ?thesis
    by (auto simp: quiet_def head_ok_def take_Suc_conv_app_nth)

next
  case False
  then show ?thesis
    by (simp add: quiet_def head_ok_def)

qed

lemma quiet_heads:
  "quiet 1 c = head_ok (drop 0 (faults c))"
  "quiet 3 c = (head_ok (drop 0 (faults c)) \<and> head_ok (drop 1 (faults c))
     \<and> head_ok (drop 2 (faults c)))"
  "quiet 5 c = (head_ok (drop 0 (faults c)) \<and> head_ok (drop 1 (faults c))
     \<and> head_ok (drop 2 (faults c)) \<and> head_ok (drop 3 (faults c)) \<and> head_ok (drop 4 (faults c)))"
  using quiet_Suc_head [of 0 c] quiet_Suc_head [of 1 c] quiet_Suc_head [of 2 c]
    quiet_Suc_head [of 3 c] quiet_Suc_head [of 4 c]
  by (simp_all add: eval_nat_numeral)

lemma quiet_Suc_0: "quiet (Suc 0) c = head_ok (faults c)"
  using quiet_Suc_head [of 0 c] by simp

lemma submitted_get_payments_try:
  "submitted (snd (get_payments_try limit c)) =
     submitted c @ (if head_ok (drop 0 (faults c)) then [(Q_LIST, [PyInt limit])] else [])"

proof -
  show ?thesis
  proof (cases "head_ok (drop 0 (faults c))")
    case h0: False
    show ?thesis
      using h0
      by (simp add: get_payments_try_def db_bind_sql_list driver_defs steps db_call_fail conn_commit_fail returns_def raises_def eval_nat_numeral)
  next
    case h0: True
    show ?thesis
    proof (cases "head_ok (drop 1 (faults c))")
      case h1: False
      show ?thesis
        using h0 h1
        by (simp add: get_payments_try_def db_bind_sql_list driver_defs steps db_call_fail conn_commit_fail returns_def raises_def eval_nat_numeral)
    next
      case h1: True
      show ?thesis
      proof (cases "head_ok (drop 2 (faults c))")
        case h2: False
        show ?thesis
          using h0 h1 h2
          by (simp add: get_payments_try_def db_bind_sql_list driver_defs steps db_call_fail conn_commit_fail returns_def raises_def eval_nat_numeral)
      next
        case h2: True
        show ?thesis
        proof (cases "head_ok (drop 3 (faults c))")
          case h3: False
          show ?thesis
            using h0 h1 h2 h3
            by (simp add: get_payments_try_def db_bind_sql_list driver_defs steps db_call_fail conn_commit_fail returns_def raises_def eval_nat_numeral)
        next
          case h3: True
          show ?thesis
            using h0 h1 h2 h3
            by (simp add: get_payments_try_def db_bind_sql_list driver_defs steps db_call_fail conn_commit_fail returns_def raises_def eval_nat_numeral)
        qed
      qed
    qed
  qed

qed

lemma submitted_add_payment_try:
  "submitted (snd (add_payment_try name amt cur meth now c)) =
     submitted c @ (if head_ok (drop 0 (faults c))
       then [(Q_INSERT, [PyStr name, PyFloat amt, PyStr cur, PyStr ''pending'', PyStr meth,
               PyDatetime now, PyDatetime now])]
       else [])"

proof -
  show ?thesis
  proof (cases "head_ok (drop 0 (faults c))")
    case h0: False
    show ?thesis
      using h0
      by (simp add: add_payment_try_def db_bind_apply [OF sql_insert_ok] driver_defs steps db_call_fail conn_commit_fail returns_def raises_def eval_nat_numeral)
  next
    case h0: True
    show ?thesis
    proof (cases "head_ok (drop 1 (faults c))")
      case h1: False
      show ?thesis
        using h0 h1
        by (simp add: add_payment_try_def db_bind_apply [OF sql_insert_ok] driver_defs steps db_call_fail conn_commit_fail returns_def raises_def eval_nat_numeral)
    next
      case h1: True
      show ?thesis
      proof (cases "head_ok (drop 2 (faults c))")
        case h2: False
        show ?thesis
          using h0 h1 h2
          by (simp add: add_payment_try_def db_bind_apply [OF sql_insert_ok] driver_defs steps db_call_fail conn_commit_fail returns_def raises_def eval_nat_numeral)
      next
        case h2: True
        show ?thesis
        proof (cases "head_ok (drop 3 (faults c))")
          case h3: False
          show ?thesis
            using h0 h1 h2 h3
            by (simp add: add_payment_try_def db_bind_apply [OF sql_insert_ok] driver_defs steps db_call_fail conn_commit_fail returns_def raises_def eval_nat_numeral)
        next
          case h3: True
          show ?thesis
            using h0 h1 h2 h3
            by (simp add: add_payment_try_def db_bind_apply [OF sql_insert_ok] driver_defs steps db_call_fail conn_commit_fail returns_def raises_def eval_nat_numeral)
        qed
      qed
    qed
  qed

qed

lemma submitted_update_payment_status_try:
  "submitted (snd (update_payment_status_try pid s now c)) =
     submitted c @ (if head_ok (drop 0 (faults c))
       then [(Q_UPDATE, [PyStr s, PyDatetime now, PyInt pid])] else [])"

proof -
  show ?thesis
  proof (cases "head_ok (drop 0 (faults c))")
    case h0: False
    show ?thesis
      using h0
      by (simp add: update_payment_status_try_def db_bind_apply [OF sql_update_ok] driver_defs steps db_call_fail conn_commit_fail returns_def raises_def eval_nat_numeral)
  next
    case h0: True
    show ?thesis
    proof (cases "head_ok (drop 1 (faults c))")
      case h1: False
      show ?thesis
        using h0 h1
        by (simp add: update_payment_status_try_def db_bind_apply [OF sql_update_ok] driver_defs steps db_call_fail conn_commit_fail returns_def raises_def eval_nat_numeral)
    next
      case h1: True
      show ?thesis
      proof (cases "head_ok (drop 2 (faults c))")
        case h2: False
        show ?thesis
          using h0 h1 h2
          by (simp add: update_payment_status_try_def db_bind_apply [OF sql_update_ok] driver_defs steps db_call_fail conn_commit_fail returns_def raises_def eval_nat_numeral)
      next
        case h2: True
        show ?thesis
        proof (cases "head_ok (drop 3 (faults c))")
          case h3: False
          show ?thesis
            using h0 h1 h2 h3
            by (simp add: update_payment_status_try_def db_bind_apply [OF sql_update_ok] driver_defs steps db_call_fail conn_commit_fail returns_def raises_def eval_nat_numeral)
        next
          case h3: True
          show ?thesis
            using h0 h1 h2 h3
            by (simp add: update_payment_status_try_def db_bind_apply [OF sql_update_ok] driver_defs steps db_call_fail conn_commit_fail returns_def raises_def eval_nat_numeral)
        qed
      qed
    qed
  qed

qed

lemma submitted_get_payment_stats_try:
  "submitted (snd (get_payment_stats_try t1 t2 c)) =
     submitted c @
       (if head_ok (drop 0 (faults c))
        then (Q_TODAY, [PyDate (date_of t1)]) #
          (if head_ok (drop 1 (faults c)) \<and> head_ok (drop 2 (faults c))
           then (Q_STATUS, []) #
             (if head_ok (drop 3 (faults c)) \<and> head_ok (drop 4 (faults c))
              then [(Q_RECENT, [PyDatetime (t2 - 3600000000)])] else [])
           else [])
        else [])"

proof -
  show ?thesis
  proof (cases "head_ok (drop 0 (faults c))")
    case h0: False
    show ?thesis
      using h0
      by (simp add: get_payment_stats_try_def db_bind_apply [OF sql_today_ok] db_bind_apply [OF sql_status_ok] db_bind_apply [OF sql_recent_ok] unpack2_def subscript0_def py_dict_groups count_or_zero total_as_float driver_defs steps db_call_fail conn_commit_fail returns_def raises_def eval_nat_numeral del: sql_today.simps sql_status.simps sql_recent.simps)
  next
    case h0: True
    show ?thesis
    proof (cases "head_ok (drop 1 (faults c))")
      case h1: False
      show ?thesis
        using h0 h1
        by (simp add: get_payment_stats_try_def db_bind_apply [OF sql_today_ok] db_bind_apply [OF sql_status_ok] db_bind_apply [OF sql_recent_ok] unpack2_def subscript0_def py_dict_groups count_or_zero total_as_float driver_defs steps db_call_fail conn_commit_fail returns_def raises_def eval_nat_numeral del: sql_today.simps sql_status.simps sql_recent.simps)
    next
      case h1: True
      show ?thesis
      proof (cases "head_ok (drop 2 (faults c))")
        case h2: False
        show ?thesis
          using h0 h1 h2
          by (simp add: get_payment_stats_try_def db_bind_apply [OF sql_today_ok] db_bind_apply [OF sql_status_ok] db_bind_apply [OF sql_recent_ok] unpack2_def subscript0_def py_dict_groups count_or_zero total_as_float driver_defs steps db_call_fail conn_commit_fail returns_def raises_def eval_nat_numeral del: sql_today.simps sql_status.simps sql_recent.simps)
      next
        case h2: True
        show ?thesis
        proof (cases "head_ok (drop 3 (faults c))")
          case h3: False
          show ?thesis
            using h0 h1 h2 h3
            by (simp add: get_payment_stats_try_def db_bind_apply [OF sql_today_ok] db_bind_apply [OF sql_status_ok] db_bind_apply [OF sql_recent_ok] unpack2_def subscript0_def py_dict_groups count_or_zero total_as_float driver_defs steps db_call_fail conn_commit_fail returns_def raises_def eval_nat_numeral del: sql_today.simps sql_status.simps sql_recent.simps)
        next
          case h3: True
          show ?thesis
          proof (cases "head_ok (drop 4 (faults c))")
            case h4: False
            show ?thesis
              using h0 h1 h2 h3 h4
              by (simp add: get_payment_stats_try_def db_bind_apply [OF sql_today_ok] db_bind_apply [OF sql_status_ok] db_bind_apply [OF sql_recent_ok] unpack2_def subscript0_def py_dict_groups count_or_zero total_as_float driver_defs steps db_call_fail conn_commit_fail returns_def raises_def eval_nat_numeral del: sql_today.simps sql_status.simps sql_recent.simps)
          next
            case h4: True
            show ?thesis
            proof (cases "head_ok (drop 5 (faults c))")
              case h5: False
              show ?thesis
                using h0 h1 h2 h3 h4 h5
                by (simp add: get_payment_stats_try_def db_bind_apply [OF sql_today_ok] db_bind_apply [OF sql_status_ok] db_bind_apply [OF sql_recent_ok] unpack2_def subscript0_def py_dict_groups count_or_zero total_as_float driver_defs steps db_call_fail conn_commit_fail returns_def raises_def eval_nat_numeral del: sql_today.simps sql_status.simps sql_recent.simps)
            next
              case h5: True
              show ?thesis
              proof (cases "head_ok (drop 6 (faults c))")
                case h6: False
                show ?thesis
                  using h0 h1 h2 h3 h4 h5 h6
                  by (simp add: get_payment_stats_try_def db_bind_apply [OF sql_today_ok] db_bind_apply [OF sql_status_ok] db_bind_apply [OF sql_recent_ok] unpack2_def subscript0_def py_dict_groups count_or_zero total_as_float driver_defs steps db_call_fail conn_commit_fail returns_def raises_def eval_nat_numeral del: sql_today.simps sql_status.simps sql_recent.simps)
              next
                case h6: True
                show ?thesis
                proof (cases "head_ok (drop 7 (faults c))")
                  case h7: False
                  show ?thesis
                    using h0 h1 h2 h3 h4 h5 h6 h7
                    by (simp add: get_payment_stats_try_def db_bind_apply [OF sql_today_ok] db_bind_apply [OF sql_status_ok] db_bind_apply [OF sql_recent_ok] unpack2_def subscript0_def py_dict_groups count_or_zero total_as_float driver_defs steps db_call_fail conn_commit_fail returns_def raises_def eval_nat_numeral del: sql_today.simps sql_status.simps sql_recent.simps)
                next
                  case h7: True
                  show ?thesis
                    using h0 h1 h2 h3 h4 h5 h6 h7
                    by (simp add: get_payment_stats_try_def db_bind_apply [OF sql_today_ok] db_bind_apply [OF sql_status_ok] db_bind_apply [OF sql_recent_ok] unpack2_def subscript0_def py_dict_groups count_or_zero total_as_float driver_defs steps db_call_fail conn_commit_fail returns_def raises_def eval_nat_numeral del: sql_today.simps sql_status.simps sql_recent.simps)
                qed
              qed
            qed
          qed
        qed
      qed
    qed
  qed

qed

lemma sent_get_payments:
  "texts_sent c (get_payments (Some c) limit) = (if quiet 1 c then [Q_LIST] else [])"
  "params_sent c (get_payments (Some c) limit) = (if quiet 1 c then [[PyInt limit]] else [])"
  by (simp_all add: texts_sent_def params_sent_def conn_after_get_payments
      submitted_get_payments_try quiet_heads quiet_Suc_0)

lemma sent_add_payment:
  "texts_sent c (add_payment (Some c) name amt cur meth now) =
     (if quiet 1 c then [Q_INSERT] else [])"
  "params_sent c (add_payment (Some c) name amt cur meth now) =
     (if quiet 1 c
      then [[PyStr name, PyFloat amt, PyStr cur, PyStr ''pending'', PyStr meth,
             PyDatetime now, PyDatetime now]]
      else [])"
  by (simp_all add: texts_sent_def params_sent_def conn_after_add_payment
      submitted_add_payment_try quiet_heads quiet_Suc_0)

lemma sent_update_payment_status:
  "texts_sent c (update_payment_status (Some c) pid s now) =
     (if quiet 1 c then [Q_UPDATE] else [])"
  "params_sent c (update_payment_status (Some c) pid s now) =
     (if quiet 1 c then [[PyStr s, PyDatetime now, PyInt pid]] else [])"
  by (simp_all add: texts_sent_def params_sent_def conn_after_update_payment_status
      submitted_update_payment_status_try quiet_heads quiet_Suc_0)

lemma sent_get_payment_stats:
  "texts_sent c (get_payment_stats (Some c) t1 t2) =
     (if quiet 1 c
      then Q_TODAY # (if quiet 3 c then Q_STATUS # (if quiet 5 c then [Q_RECENT] else []) else [])
      else [])"
  "params_sent c (get_payment_stats (Some c) t1 t2) =
     (if quiet 1 c
      then [PyDate (date_of t1)] #
        (if quiet 3 c
         then [] # (if quiet 5 c then [[PyDatetime (t2 - 3600000000)]] else [])
         else [])
      else [])"
  by (simp_all add: texts_sent_def params_sent_def conn_after_get_payment_stats
      submitted_get_payment_stats_try quiet_heads quiet_Suc_0)

text \<open>
  Claim C9. The query texts an operation hands to \<^verbatim>\<open>cursor.execute\<close> are the string constants
  of the source, and which of them are sent depends on the connection alone (on how far the
  operation gets before a driver call raises), never on \<open>limit\<close>, \<open>name\<close>, \<open>amt\<close>, \<open>cur\<close>, \<open>meth\<close>,
  \<open>pid\<close>, \<open>new_status\<close> or the clock: two calls from the same connection send the same texts
  whatever their arguments. The arguments travel in the parameter tuples only.

\<close>

theorem query_texts_are_constants:
  "texts_sent c (get_payments (Some c) limit) = (if quiet 1 c then [Q_LIST] else [])
   \<and> params_sent c (get_payments (Some c) limit) = (if quiet 1 c then [[PyInt limit]] else [])
   \<and> texts_sent c (add_payment (Some c) name amt cur meth now) =
        (if quiet 1 c then [Q_INSERT] else [])
   \<and> params_sent c (add_payment (Some c) name amt cur meth now) =
        (if quiet 1 c
         then [[PyStr name, PyFloat amt, PyStr cur, PyStr ''pending'', PyStr meth,
                PyDatetime now, PyDatetime now]]
         else [])
   \<and> texts_sent c (update_payment_status (Some c) pid new_status now) =
        (if quiet 1 c then [Q_UPDATE] else [])
   \<and> params_sent c (update_payment_status (Some c) pid new_status now) =
        (if quiet 1 c then [[PyStr new_status, PyDatetime now, PyInt pid]] else [])
   \<and> texts_sent c (get_payment_stats (Some c) now_today now_recent) =
        (if quiet 1 c
         then Q_TODAY #
           (if quiet 3 c then Q_STATUS # (if quiet 5 c then [Q_RECENT] else []) else [])
         else [])
   \<and> params_sent c (get_payment_stats (Some c) now_today now_recent) =
        (if quiet 1 c
         then [PyDate (date_of now_today)] #
           (if quiet 3 c
            then [] # (if quiet 5 c then [[PyDatetime (now_recent - 3600000000)]] else [])
            else [])
         else [])
   \<and> texts_sent c (get_payments (Some c) limit) = texts_sent c (get_payments (Some c) limit')
   \<and> texts_sent c (add_payment (Some c) name amt cur meth now) =
        texts_sent c (add_payment (Some c) name' amt' cur' meth' now')
   \<and> texts_sent c (update_payment_status (Some c) pid new_status now) =
        texts_sent c (update_payment_status (Some c) pid' new_status' now')
   \<and> texts_sent c (get_payment_stats (Some c) now_today now_recent) =
        texts_sent c (get_payment_stats (Some c) now_today' now_recent')"
  by (simp only: sent_get_payments sent_add_payment sent_update_payment_status
      sent_get_payment_stats simp_thms)

theorem query_texts_are_constants_witness:
  "texts_sent two_rows
      (add_payment (Some two_rows) ''Bobby; DROP TABLE payments; --'' 5 ''GBP'' ''paypal'' 3000)
     = [Q_INSERT]
   \<and> params_sent two_rows
      (add_payment (Some two_rows) ''Bobby; DROP TABLE payments; --'' 5 ''GBP'' ''paypal'' 3000)
     = [[PyStr ''Bobby; DROP TABLE payments; --'', PyFloat 5, PyStr ''GBP'', PyStr ''pending'',
         PyStr ''paypal'', PyDatetime 3000, PyDatetime 3000]]
   \<and> texts_sent lost_conn (get_payment_stats (Some lost_conn) 7 8) = [Q_TODAY]"

proof -
  have h: "quiet 1 two_rows" "quiet 1 lost_conn" "\<not> quiet 3 lost_conn"
    by (simp_all add: quiet_def two_rows_def lost_conn_def)
  from query_texts_are_constants [of two_rows 0 "''Bobby; DROP TABLE payments; --''" 5 "''GBP''"
      "''paypal''" 3000 0 "''x''" 0 0]
    query_texts_are_constants [of lost_conn 0 "''x''" 0 "''y''" "''z''" 0 0 "''w''" 7 8] h
  show ?thesis
    by simp

qed

end
